theory Spec2Isabelle
  imports Complex_Main
begin

section \<open>The JavaScript values the stack constructor computes with\<close>

text \<open>
  The constructor of \<^verbatim>\<open>AiGmSleeperStack\<close> reads deploy-time context values with
  \<^verbatim>\<open>this.node.tryGetContext\<close>, coerces two of them with \<^verbatim>\<open>Number\<close>, falls back to
  defaults with \<^verbatim>\<open>||\<close> and \<^verbatim>\<open>??\<close>, interpolates a number into a template literal and
  serialises an object literal with \<^verbatim>\<open>JSON.stringify\<close>. This section embeds those
  operations of the language as ECMAScript defines them.

  A context value is one of the primitive values a deploy supplies: a string
  (\<^verbatim>\<open>-c key=value\<close> on the command line), or a number, a boolean or \<^verbatim>\<open>null\<close> (the
  \<^verbatim>\<open>context\<close> object of \<^verbatim>\<open>cdk.json\<close>); \<open>JUndefined\<close> is what \<^verbatim>\<open>tryGetContext\<close>
  returns for a key that is not set. Arrays and objects as context values are outside
  the embedding. A string is a list of code units below 256.
\<close>

subsection \<open>Numbers\<close>

text \<open>
  A Number is NaN, an infinity, or a finite binary64 value, carried as the rational it
  denotes. The two zeros are one value: nothing the constructor does tells them apart
  (both print as \<^verbatim>\<open>0\<close> and both are falsy).
\<close>

datatype jsnum = NaN | PInf | NInf | Fin rat

definition pow2 :: "int \<Rightarrow> rat" where
  "pow2 e = (if 0 \<le> e then 2 ^ nat e else 1 / 2 ^ nat (- e))"

definition pow10 :: "int \<Rightarrow> rat" where
  "pow10 e = (if 0 \<le> e then 10 ^ nat e else 1 / 10 ^ nat (- e))"

text \<open>\<open>numlen b n\<close> is the number of base-\<open>b\<close> digits of a positive \<open>n\<close>.\<close>

function numlen :: "int \<Rightarrow> int \<Rightarrow> int" where
  "numlen b n = (if n \<le> 0 \<or> b \<le> 1 then 0 else 1 + numlen b (n div b))"
  by pat_completeness auto
termination
  by (relation "measure (\<lambda>(b, n). nat n)") (auto intro: int_div_less_self)

declare numlen.simps [simp del]

definition floorlog2 :: "rat \<Rightarrow> int" where
  "floorlog2 a =
     (let (n, d) = quotient_of a;
          e = numlen 2 n - numlen 2 d
      in if pow2 e \<le> a then e else e - 1)"

definition round_half_even :: "rat \<Rightarrow> int" where
  "round_half_even x =
     (let f = \<lfloor>x\<rfloor>; d = x - of_int f
      in if d < 1 / 2 then f else if 1 / 2 < d then f + 1 else if even f then f else f + 1)"

text \<open>
  Rounding a positive rational to binary64, to nearest with ties to even: 53 bits of
  significand, the least exponent that of the subnormals, \<open>None\<close> for overflow.
\<close>

definition round64_pos :: "rat \<Rightarrow> rat option" where
  "round64_pos a =
     (let e = max (floorlog2 a) (- 1022);
          u = pow2 (e - 52);
          r = of_int (round_half_even (a / u)) * u
      in if pow2 1024 \<le> r then None else Some r)"

text \<open>An integer of magnitude at most \<open>2^53\<close> is a binary64 value as it stands.\<close>

definition is_safe_int :: "rat \<Rightarrow> bool" where
  "is_safe_int q = (of_int \<lfloor>q\<rfloor> = q \<and> \<bar>q\<bar> \<le> 9007199254740992)"

definition round64 :: "rat \<Rightarrow> jsnum" where
  "round64 q =
     (if is_safe_int q then Fin q
      else if 0 < q then (case round64_pos q of None \<Rightarrow> PInf | Some r \<Rightarrow> Fin r)
      else (case round64_pos (- q) of None \<Rightarrow> NInf | Some r \<Rightarrow> Fin (- r)))"

subsection \<open>Number::toString\<close>

definition digit_char :: "int \<Rightarrow> char" where
  "digit_char d = char_of (48 + d)"

function dec_digits :: "int \<Rightarrow> string" where
  "dec_digits n =
     (if n < 10 then [digit_char n] else dec_digits (n div 10) @ [digit_char (n mod 10)])"
  by pat_completeness auto
termination
  by (relation "measure nat") (auto intro: int_div_less_self)

declare dec_digits.simps [simp del]

definition floorlog10 :: "rat \<Rightarrow> int" where
  "floorlog10 x =
     (let (n, d) = quotient_of x;
          e = numlen 10 n - numlen 10 d
      in if pow10 e \<le> x then e + 1 else e)"

text \<open>
  The digits ECMAScript prints for a positive finite \<open>x\<close>: the least number \<open>k\<close> of
  digits, starting from the given one, for which some \<open>s\<close> of \<open>k\<close> digits has
  \<open>s * 10^(n - k)\<close> round to \<open>x\<close>; of two such \<open>s\<close> the one nearer to \<open>x\<close>, the even one on
  a tie. Seventeen digits always suffice for a binary64 value, so the search stops there.
\<close>

fun shortest_digits :: "rat \<Rightarrow> int \<Rightarrow> nat \<Rightarrow> nat \<Rightarrow> int \<times> int" where
  "shortest_digits x n k 0 = (round_half_even (x * pow10 (int k - n)), n)"
| "shortest_digits x n k (Suc left) =
     (let u = pow10 (n - int k);
          lo = \<lfloor>x / u\<rfloor>;
          hi = lo + 1;
          oklo = (round64 (of_int lo * u) = Fin x);
          okhi = (round64 (of_int hi * u) = Fin x);
          dlo = x - of_int lo * u;
          dhi = of_int hi * u - x;
          uselo = (oklo \<and> (\<not> okhi \<or> dlo < dhi \<or> (dlo = dhi \<and> even lo)))
      in if uselo then (lo, n)
         else if okhi then (if hi = 10 ^ k then (10 ^ (k - 1), n + 1) else (hi, n))
         else shortest_digits x n (Suc k) left)"

definition exp_suffix :: "int \<Rightarrow> string" where
  "exp_suffix e = ''e'' @ (if e < 0 then ''-'' else ''+'') @ dec_digits \<bar>e\<bar>"

definition format_pos :: "rat \<Rightarrow> string" where
  "format_pos x =
     (let (s, n) = shortest_digits x (floorlog10 x) 1 16;
          ds = dec_digits s;
          k = int (length ds)
      in if k \<le> n \<and> n \<le> 21 then ds @ replicate (nat (n - k)) (CHR ''0'')
         else if 0 < n \<and> n \<le> 21 then take (nat n) ds @ ''.'' @ drop (nat n) ds
         else if - 6 < n \<and> n \<le> 0 then ''0.'' @ replicate (nat (- n)) (CHR ''0'') @ ds
         else if k = 1 then ds @ exp_suffix (n - 1)
         else [hd ds] @ ''.'' @ tl ds @ exp_suffix (n - 1))"

text \<open>
  What a template literal and \<^verbatim>\<open>JSON.stringify\<close> print for a number. An integer of
  magnitude at most \<open>2^53\<close> prints as its decimal digits.
\<close>

fun Number_toString :: "jsnum \<Rightarrow> string" where
  "Number_toString NaN = ''NaN''"
| "Number_toString PInf = ''Infinity''"
| "Number_toString NInf = ''-Infinity''"
| "Number_toString (Fin q) =
     (if is_safe_int q then (if q < 0 then ''-'' @ dec_digits (- \<lfloor>q\<rfloor>) else dec_digits \<lfloor>q\<rfloor>)
      else if q < 0 then ''-'' @ format_pos (- q)
      else format_pos q)"

subsection \<open>StringToNumber\<close>

text \<open>
  \<^verbatim>\<open>Number(s)\<close> of a string: white space is trimmed, the empty string is 0, a
  literal \<^verbatim>\<open>0x\<close>, \<^verbatim>\<open>0o\<close> or \<^verbatim>\<open>0b\<close> is an unsigned integer, anything else must be a
  signed decimal literal or \<^verbatim>\<open>Infinity\<close>, and every other string is NaN.
\<close>

definition is_ws :: "char \<Rightarrow> bool" where
  "is_ws c = ((of_char c :: nat) \<in> set [9, 10, 11, 12, 13, 32, 160])"

definition trim :: "string \<Rightarrow> string" where
  "trim s = rev (dropWhile is_ws (rev (dropWhile is_ws s)))"

definition digit_val :: "char \<Rightarrow> int option" where
  "digit_val c =
     (let n = (of_char c :: int)
      in if 48 \<le> n \<and> n \<le> 57 then Some (n - 48)
         else if 97 \<le> n \<and> n \<le> 102 then Some (n - 87)
         else if 65 \<le> n \<and> n \<le> 70 then Some (n - 55)
         else None)"

definition is_digit :: "char \<Rightarrow> bool" where
  "is_digit c = (let n = (of_char c :: int) in 48 \<le> n \<and> n \<le> 57)"

fun digits_value :: "int \<Rightarrow> string \<Rightarrow> int \<Rightarrow> int option" where
  "digits_value b [] acc = Some acc"
| "digits_value b (c # cs) acc =
     (case digit_val c of
        None \<Rightarrow> None
      | Some d \<Rightarrow> if d < b then digits_value b cs (acc * b + d) else None)"

definition radix_of :: "char \<Rightarrow> int option" where
  "radix_of p =
     (if p = CHR ''x'' \<or> p = CHR ''X'' then Some 16
      else if p = CHR ''o'' \<or> p = CHR ''O'' then Some 8
      else if p = CHR ''b'' \<or> p = CHR ''B'' then Some 2
      else None)"

fun NonDecimalIntegerLiteral :: "string \<Rightarrow> int option" where
  "NonDecimalIntegerLiteral (z # p # d # ds) =
     (if z = CHR ''0'' then
        (case radix_of p of None \<Rightarrow> None | Some b \<Rightarrow> digits_value b (d # ds) 0)
      else None)"
| "NonDecimalIntegerLiteral _ = None"

fun ExponentPart :: "string \<Rightarrow> int option" where
  "ExponentPart [] = Some 0"
| "ExponentPart (c # r) =
     (if c = CHR ''e'' \<or> c = CHR ''E'' then
        (case r of
           [] \<Rightarrow> None
         | s # ds \<Rightarrow>
             if s = CHR ''-'' then (if ds = [] then None else map_option uminus (digits_value 10 ds 0))
             else if s = CHR ''+'' then (if ds = [] then None else digits_value 10 ds 0)
             else digits_value 10 (s # ds) 0)
      else None)"

definition StrUnsignedDecimalLiteral :: "bool \<Rightarrow> string \<Rightarrow> jsnum" where
  "StrUnsignedDecimalLiteral neg u =
     (if u = ''Infinity'' then (if neg then NInf else PInf)
      else
        let ip = takeWhile is_digit u;
            r1 = dropWhile is_digit u;
            fp = (case r1 of [] \<Rightarrow> [] | c # r \<Rightarrow> if c = CHR ''.'' then takeWhile is_digit r else []);
            r2 = (case r1 of [] \<Rightarrow> [] | c # r \<Rightarrow> if c = CHR ''.'' then dropWhile is_digit r else r1)
        in if ip = [] \<and> fp = [] then NaN
           else
             (case (digits_value 10 (ip @ fp) 0, ExponentPart r2) of
                (Some m, Some e) \<Rightarrow>
                  round64 ((if neg then - 1 else 1) * of_int m * pow10 (e - int (length fp)))
              | _ \<Rightarrow> NaN))"

definition StrDecimalLiteral :: "string \<Rightarrow> jsnum" where
  "StrDecimalLiteral t =
     (case t of
        [] \<Rightarrow> NaN
      | c # r \<Rightarrow>
          if c = CHR ''-'' then StrUnsignedDecimalLiteral True r
          else if c = CHR ''+'' then StrUnsignedDecimalLiteral False r
          else StrUnsignedDecimalLiteral False t)"

definition StringToNumber :: "string \<Rightarrow> jsnum" where
  "StringToNumber s =
     (let t = trim s
      in if t = [] then Fin 0
         else (case NonDecimalIntegerLiteral t of
                 Some n \<Rightarrow> round64 (of_int n)
               | None \<Rightarrow> StrDecimalLiteral t))"


subsection \<open>Values, coercions and the two default operators\<close>

datatype jsval = JUndefined | JNull | JBool bool | JNum jsnum | JStr string

text \<open>\<^verbatim>\<open>Number(v)\<close>.\<close>

fun Number :: "jsval \<Rightarrow> jsnum" where
  "Number JUndefined = NaN"
| "Number JNull = Fin 0"
| "Number (JBool b) = (if b then Fin 1 else Fin 0)"
| "Number (JNum n) = n"
| "Number (JStr s) = StringToNumber s"

text \<open>The truth value an \<^verbatim>\<open>if\<close> and \<^verbatim>\<open>||\<close> test.\<close>

fun truthy :: "jsval \<Rightarrow> bool" where
  "truthy JUndefined = False"
| "truthy JNull = False"
| "truthy (JBool b) = b"
| "truthy (JNum n) = (n \<noteq> NaN \<and> n \<noteq> Fin 0)"
| "truthy (JStr s) = (s \<noteq> [])"

text \<open>\<^verbatim>\<open>a || b\<close> and \<^verbatim>\<open>a ?? b\<close>.\<close>

definition or_else :: "jsval \<Rightarrow> jsval \<Rightarrow> jsval" where
  "or_else a b = (if truthy a then a else b)"

definition nullish_else :: "jsval \<Rightarrow> jsval \<Rightarrow> jsval" where
  "nullish_else a b = (if a = JUndefined \<or> a = JNull then b else a)"

subsection \<open>JSON.stringify\<close>

text \<open>
  \<^verbatim>\<open>JSON.stringify\<close> quotes a string between double quotes and escapes the double
  quote, the backslash and the control characters.
\<close>

definition hex_digit :: "nat \<Rightarrow> char" where
  "hex_digit d = ''0123456789abcdef'' ! d"

definition QuoteJSONChar :: "char \<Rightarrow> string" where
  "QuoteJSONChar c =
     (let n = (of_char c :: nat)
      in if n = 34 then [CHR 0x5C, CHR 0x22]
         else if n = 92 then [CHR 0x5C, CHR 0x5C]
         else if n = 8 then [CHR 0x5C, CHR ''b'']
         else if n = 9 then [CHR 0x5C, CHR ''t'']
         else if n = 10 then [CHR 0x5C, CHR ''n'']
         else if n = 12 then [CHR 0x5C, CHR ''f'']
         else if n = 13 then [CHR 0x5C, CHR ''r'']
         else if n < 32 then [CHR 0x5C, CHR ''u'', CHR ''0'', CHR ''0'', hex_digit (n div 16), hex_digit (n mod 16)]
         else [c])"

definition QuoteJSONString :: "string \<Rightarrow> string" where
  "QuoteJSONString s = [CHR 0x22] @ concat (map QuoteJSONChar s) @ [CHR 0x22]"

text \<open>
  The text of a primitive value; \<open>None\<close> is \<^verbatim>\<open>undefined\<close>, the result for which
  \<^verbatim>\<open>JSON.stringify\<close> leaves a property out of an object. A number that is not finite
  is written \<^verbatim>\<open>null\<close>.
\<close>

fun SerializeJSONProperty :: "jsval \<Rightarrow> string option" where
  "SerializeJSONProperty JUndefined = None"
| "SerializeJSONProperty JNull = Some ''null''"
| "SerializeJSONProperty (JBool b) = Some (if b then ''true'' else ''false'')"
| "SerializeJSONProperty (JNum (Fin q)) = Some (Number_toString (Fin q))"
| "SerializeJSONProperty (JNum n) = Some ''null''"
| "SerializeJSONProperty (JStr s) = Some (QuoteJSONString s)"

fun join :: "string \<Rightarrow> string list \<Rightarrow> string" where
  "join sep [] = []"
| "join sep [x] = x"
| "join sep (x # y # ys) = x @ sep @ join sep (y # ys)"

text \<open>
  \<^verbatim>\<open>JSON.stringify\<close> of an object literal, given as its properties in the order they
  are written: each property whose value has a text, as \<^verbatim>\<open>"key":text\<close>.
\<close>

fun JSONProperty :: "string \<times> jsval \<Rightarrow> string list" where
  "JSONProperty (k, v) =
     (case SerializeJSONProperty v of
        None \<Rightarrow> []
      | Some t \<Rightarrow> [QuoteJSONString k @ '':'' @ t])"

definition JSON_stringify :: "(string \<times> jsval) list \<Rightarrow> string" where
  "JSON_stringify props = ''{'' @ join '','' (concat (map JSONProperty props)) @ ''}''"

section \<open>The resources a stack declares\<close>

text \<open>
  The repository holds two snapshots of the class \<^verbatim>\<open>AiGmSleeperStack\<close>:
  \<^verbatim>\<open>src/infra/lib/ai-gm-stack.ts\<close>, with two functions and two schedules, and the listing
  carried in \<^verbatim>\<open>src/infra/README.md\<close> (lines 33 to 150), with a third function, a third
  schedule and a guard on the roster schedule. Both are embedded, the first under names
  ending in \<open>_lib\<close> and the second under names ending in \<open>_readme\<close>; what the two share
  word for word is defined once.

  A constructor is a straight line of statements, each either \<^verbatim>\<open>new X(this, id, props)\<close>
  or a grant. A resource is the constructor's class with the properties it is given; a
  reference to an attribute of another construct (\<^verbatim>\<open>bucket.bucketName\<close>,
  \<^verbatim>\<open>playersFn.functionArn\<close>) is a token naming that construct's id.
\<close>

datatype token = BucketName string | FunctionArn string | FunctionName string | RoleArn string

datatype envval = Tok token | Val jsval

datatype Duration = days nat | seconds nat

datatype BlockPublicAccess = BLOCK_ALL | BLOCK_ACLS

datatype BucketEncryption = UNENCRYPTED | KMS_MANAGED | S3_MANAGED | KMS

datatype RemovalPolicy = DESTROY | RETAIN | SNAPSHOT

datatype Runtime = PYTHON_3_11 | PYTHON_3_12

datatype Architecture = X86_64 | ARM_64

datatype RetentionDays = ONE_DAY | ONE_WEEK | ONE_MONTH

datatype Principal = ServicePrincipal string

record LifecycleRule =
  rule_id :: string
  noncurrentVersionExpiration :: Duration

record BucketProps =
  versioned :: bool
  blockPublicAccess :: BlockPublicAccess
  encryption :: BucketEncryption
  lifecycleRules :: "LifecycleRule list"
  removalPolicy :: RemovalPolicy
  autoDeleteObjects :: bool

record PythonFunctionProps =
  entry :: "string list"
  index :: string
  handler :: string
  runtime :: Runtime
  architecture :: Architecture
  memorySize :: nat
  timeout :: Duration
  environment :: "(string \<times> envval) list"
  logRetention :: RetentionDays

record RoleProps =
  assumedBy :: Principal

record FlexibleTimeWindow =
  mode :: string

record Target =
  arn :: token
  roleArn :: token
  input :: string

record CfnScheduleProps =
  flexibleTimeWindow :: FlexibleTimeWindow
  scheduleExpressionTimezone :: "string option"
  scheduleExpression :: string
  target :: Target
  description :: string

datatype resource =
    Bucket BucketProps
  | PythonFunction PythonFunctionProps
  | Role RoleProps
  | CfnSchedule CfnScheduleProps
  | CfnOutput token

text \<open>
  \<open>grantReadWrite b f\<close> is \<^verbatim>\<open>b.grantReadWrite(f)\<close>: the function with id \<open>f\<close> may read and
  write the bucket with id \<open>b\<close>. \<open>grantInvoke f r\<close> is \<^verbatim>\<open>f.grantInvoke(r)\<close>: the role with
  id \<open>r\<close> may invoke the function with id \<open>f\<close>.
\<close>

datatype grant = grantReadWrite string string | grantInvoke string string

record Stack =
  children :: "(string \<times> resource) list"
  grants :: "grant list"

datatype stmt = New string resource | Grant grant

text \<open>
  A construct's id is unique in its scope: \<^verbatim>\<open>new X(this, id, props)\<close> throws when the
  stack already has a child of that id.
\<close>

datatype error = AlreadyExists string

fun step :: "stmt \<Rightarrow> Stack \<Rightarrow> error + Stack" where
  "step (New i r) st =
     (if i \<in> set (map fst (children st)) then Inl (AlreadyExists i)
      else Inr (st\<lparr>children := children st @ [(i, r)]\<rparr>))"
| "step (Grant g) st = Inr (st\<lparr>grants := grants st @ [g]\<rparr>)"

fun exec :: "stmt list \<Rightarrow> Stack \<Rightarrow> error + Stack" where
  "exec [] st = Inr st"
| "exec (c # cs) st = (case step c st of Inl e \<Rightarrow> Inl e | Inr st' \<Rightarrow> exec cs st')"

definition empty_stack :: Stack where
  "empty_stack = \<lparr>children = [], grants = []\<rparr>"

subsection \<open>Reading a stack\<close>

fun bucket_of :: "string \<times> resource \<Rightarrow> (string \<times> BucketProps) list" where
  "bucket_of (i, Bucket p) = [(i, p)]"
| "bucket_of _ = []"

fun function_of :: "string \<times> resource \<Rightarrow> (string \<times> PythonFunctionProps) list" where
  "function_of (i, PythonFunction p) = [(i, p)]"
| "function_of _ = []"

fun role_of :: "string \<times> resource \<Rightarrow> (string \<times> RoleProps) list" where
  "role_of (i, Role p) = [(i, p)]"
| "role_of _ = []"

fun schedule_of :: "string \<times> resource \<Rightarrow> (string \<times> CfnScheduleProps) list" where
  "schedule_of (i, CfnSchedule p) = [(i, p)]"
| "schedule_of _ = []"

definition buckets :: "Stack \<Rightarrow> (string \<times> BucketProps) list" where
  "buckets st = concat (map bucket_of (children st))"

definition pythonFunctions :: "Stack \<Rightarrow> (string \<times> PythonFunctionProps) list" where
  "pythonFunctions st = concat (map function_of (children st))"

definition roles :: "Stack \<Rightarrow> (string \<times> RoleProps) list" where
  "roles st = concat (map role_of (children st))"

definition schedules :: "Stack \<Rightarrow> (string \<times> CfnScheduleProps) list" where
  "schedules st = concat (map schedule_of (children st))"

text \<open>The schedules whose target is the function with id \<open>f\<close>.\<close>

definition schedules_targeting :: "string \<Rightarrow> Stack \<Rightarrow> (string \<times> CfnScheduleProps) list" where
  "schedules_targeting f st = filter (\<lambda>ip. arn (target (snd ip)) = FunctionArn f) (schedules st)"

section \<open>The constructor of AiGmSleeperStack\<close>

subsection \<open>Deploy-time context\<close>

text \<open>
  The context is the map from keys to the values set at deploy time;
  \<^verbatim>\<open>this.node.tryGetContext(key)\<close> is \<^verbatim>\<open>undefined\<close> for a key that is not set.
\<close>

definition tryGetContext :: "(string \<rightharpoonup> jsval) \<Rightarrow> string \<Rightarrow> jsval" where
  "tryGetContext ctx key = (case ctx key of None \<Rightarrow> JUndefined | Some v \<Rightarrow> v)"

record config =
  username :: jsval
  season :: jsnum
  leagueId :: jsval
  rosterEvery :: jsnum
  playersPrefix :: jsval
  rosterPrefix :: jsval

text \<open>\<^verbatim>\<open>src/infra/lib/ai-gm-stack.ts\<close>, lines 15 to 20.\<close>

definition config_lib :: "(string \<rightharpoonup> jsval) \<Rightarrow> config" where
  "config_lib ctx =
     \<lparr>username = or_else (tryGetContext ctx ''username'') (JStr ''YOUR_SLEEPER_USERNAME''),
      season = Number (nullish_else (tryGetContext ctx ''season'') (JNum (Fin 2025))),
      leagueId = or_else (tryGetContext ctx ''leagueId'') JUndefined,
      rosterEvery = Number (nullish_else (tryGetContext ctx ''rosterEvery'') (JNum (Fin 10))),
      playersPrefix = or_else (tryGetContext ctx ''playersPrefix'') (JStr ''sleeper/players''),
      rosterPrefix = or_else (tryGetContext ctx ''rosterPrefix'') (JStr ''sleeper_sync'')\<rparr>"

text \<open>
  \<^verbatim>\<open>src/infra/README.md\<close>, lines 38 to 43. \<open>year\<close> is what
  \<^verbatim>\<open>new Date().getFullYear()\<close> returns at deploy time.
\<close>

definition config_readme :: "int \<Rightarrow> (string \<rightharpoonup> jsval) \<Rightarrow> config" where
  "config_readme year ctx =
     \<lparr>username = tryGetContext ctx ''username'',
      season = Number (nullish_else (tryGetContext ctx ''season'') (JNum (Fin (of_int year)))),
      leagueId = or_else (tryGetContext ctx ''leagueId'') JUndefined,
      rosterEvery = Number (nullish_else (tryGetContext ctx ''rosterEvery'') (JNum (Fin 10))),
      playersPrefix = or_else (tryGetContext ctx ''playersPrefix'') (JStr ''sleeper/players''),
      rosterPrefix = or_else (tryGetContext ctx ''rosterPrefix'') (JStr ''sleeper/rosters'')\<rparr>"

subsection \<open>The resources, as both snapshots write them\<close>

definition SleeperDataBucket :: BucketProps where
  "SleeperDataBucket =
     \<lparr>versioned = True,
      blockPublicAccess = BLOCK_ALL,
      encryption = S3_MANAGED,
      lifecycleRules = [\<lparr>rule_id = ''expire-old-versions'', noncurrentVersionExpiration = days 90\<rparr>],
      removalPolicy = RETAIN,
      autoDeleteObjects = False\<rparr>"

text \<open>
  \<^verbatim>\<open>path.join(__dirname, '..', 'lambda')\<close>, kept as the segments joined: the directory of
  the compiled file is not known before deploy.
\<close>

definition lambdaCodePath :: "string list" where
  "lambdaCodePath = [''__dirname'', ''..'', ''lambda'']"

text \<open>
  An object literal \<^verbatim>\<open>{ ...env, key: v }\<close>: the properties of \<open>env\<close> in their order, with
  \<open>key\<close> overwritten where it stands or added last.
\<close>

fun spread_with :: "(string \<times> envval) list \<Rightarrow> string \<Rightarrow> envval \<Rightarrow> (string \<times> envval) list" where
  "spread_with [] k v = [(k, v)]"
| "spread_with ((k', v') # env) k v =
     (if k' = k then (k, v) # env else (k', v') # spread_with env k v)"

definition PlayersSyncFn :: "(string \<times> envval) list \<Rightarrow> PythonFunctionProps" where
  "PlayersSyncFn baseEnv =
     \<lparr>entry = lambdaCodePath,
      index = ''sleeper_sync.py'',
      handler = ''players_lambda_handler'',
      runtime = PYTHON_3_12,
      architecture = ARM_64,
      memorySize = 512,
      timeout = seconds 120,
      environment = baseEnv,
      logRetention = ONE_WEEK\<rparr>"

definition RosterSyncFn :: "(string \<times> envval) list \<Rightarrow> PythonFunctionProps" where
  "RosterSyncFn baseEnv =
     \<lparr>entry = lambdaCodePath,
      index = ''sleeper_sync.py'',
      handler = ''roster_lambda_handler'',
      runtime = PYTHON_3_12,
      architecture = ARM_64,
      memorySize = 512,
      timeout = seconds 60,
      environment = spread_with baseEnv ''USE_S3_PLAYERS'' (Val (JStr ''1'')),
      logRetention = ONE_WEEK\<rparr>"

definition SchedulerRole :: RoleProps where
  "SchedulerRole = \<lparr>assumedBy = ServicePrincipal ''scheduler.amazonaws.com''\<rparr>"

definition PlayersDailySchedule :: CfnScheduleProps where
  "PlayersDailySchedule =
     \<lparr>flexibleTimeWindow = \<lparr>mode = ''OFF''\<rparr>,
      scheduleExpressionTimezone = Some ''America/Los_Angeles'',
      scheduleExpression = ''cron(5 6 * * ? *)'',
      target = \<lparr>arn = FunctionArn ''PlayersSyncFn'', roleArn = RoleArn ''PlayersSchedulerRole'',
                input = JSON_stringify []\<rparr>,
      description = ''Daily Sleeper players map sync (timezone aware)''\<rparr>"

definition RosterEveryNMinutes :: "config \<Rightarrow> CfnScheduleProps" where
  "RosterEveryNMinutes cfg =
     \<lparr>flexibleTimeWindow = \<lparr>mode = ''OFF''\<rparr>,
      scheduleExpressionTimezone = None,
      scheduleExpression = ''rate('' @ Number_toString (rosterEvery cfg) @ '' minutes)'',
      target = \<lparr>arn = FunctionArn ''RosterSyncFn'', roleArn = RoleArn ''RosterSchedulerRole'',
                input = JSON_stringify [(''username'', username cfg), (''season'', JNum (season cfg)),
                                        (''league_id'', leagueId cfg)]\<rparr>,
      description = ''Roster sync every '' @ Number_toString (rosterEvery cfg) @ '' minutes''\<rparr>"

subsection \<open>The snapshot in src/infra/lib/ai-gm-stack.ts\<close>

text \<open>Lines 32 to 38.\<close>

definition baseEnv_lib :: "config \<Rightarrow> (string \<times> envval) list" where
  "baseEnv_lib cfg =
     [(''S3_BUCKET'', Tok (BucketName ''SleeperDataBucket'')),
      (''PLAYERS_S3_PREFIX'', Val (playersPrefix cfg)),
      (''ROSTER_S3_PREFIX'', Val (rosterPrefix cfg)),
      (''PLAYERS_CACHE_PATH'', Val (JStr ''/tmp/players_nfl.json''))]"

text \<open>Lines 22 to 94, statement by statement; the roster schedule is declared always.\<close>

definition body_lib :: "config \<Rightarrow> stmt list" where
  "body_lib cfg =
     [New ''SleeperDataBucket'' (Bucket SleeperDataBucket),
      New ''PlayersSyncFn'' (PythonFunction (PlayersSyncFn (baseEnv_lib cfg))),
      New ''RosterSyncFn'' (PythonFunction (RosterSyncFn (baseEnv_lib cfg))),
      Grant (grantReadWrite ''SleeperDataBucket'' ''PlayersSyncFn''),
      Grant (grantReadWrite ''SleeperDataBucket'' ''RosterSyncFn''),
      New ''PlayersSchedulerRole'' (Role SchedulerRole),
      Grant (grantInvoke ''PlayersSyncFn'' ''PlayersSchedulerRole''),
      New ''PlayersDailySchedule'' (CfnSchedule PlayersDailySchedule),
      New ''RosterSchedulerRole'' (Role SchedulerRole),
      Grant (grantInvoke ''RosterSyncFn'' ''RosterSchedulerRole''),
      New ''RosterEveryNMinutes'' (CfnSchedule (RosterEveryNMinutes cfg)),
      New ''BucketName'' (CfnOutput (BucketName ''SleeperDataBucket'')),
      New ''PlayersFnName'' (CfnOutput (FunctionName ''PlayersSyncFn'')),
      New ''RosterFnName'' (CfnOutput (FunctionName ''RosterSyncFn''))]"

definition AiGmSleeperStack_lib :: "(string \<rightharpoonup> jsval) \<Rightarrow> error + Stack" where
  "AiGmSleeperStack_lib ctx = exec (body_lib (config_lib ctx)) empty_stack"

subsection \<open>The snapshot in src/infra/README.md\<close>

text \<open>Lines 55 to 62.\<close>

definition baseEnv_readme :: "config \<Rightarrow> (string \<times> envval) list" where
  "baseEnv_readme cfg =
     [(''S3_BUCKET'', Tok (BucketName ''SleeperDataBucket'')),
      (''PLAYERS_S3_PREFIX'', Val (playersPrefix cfg)),
      (''ROSTER_S3_PREFIX'', Val (rosterPrefix cfg)),
      (''PLAYERS_CACHE_PATH'', Val (JStr ''/tmp/players_nfl.json'')),
      (''ROSTER_TARGETS_KEY'', Val (JStr ''sleeper/config/roster_targets.json''))]"

text \<open>Lines 92 to 102.\<close>

definition RosterOrchestratorFn :: "(string \<times> envval) list \<Rightarrow> PythonFunctionProps" where
  "RosterOrchestratorFn baseEnv =
     \<lparr>entry = lambdaCodePath,
      index = ''sleeper_sync.py'',
      handler = ''roster_scheduler_handler'',
      runtime = PYTHON_3_12,
      architecture = ARM_64,
      memorySize = 512,
      timeout = seconds 240,
      environment = spread_with baseEnv ''USE_S3_PLAYERS'' (Val (JStr ''1'')),
      logRetention = ONE_WEEK\<rparr>"

text \<open>Lines 138 to 143.\<close>

definition RosterHourlySchedule :: CfnScheduleProps where
  "RosterHourlySchedule =
     \<lparr>flexibleTimeWindow = \<lparr>mode = ''OFF''\<rparr>,
      scheduleExpressionTimezone = None,
      scheduleExpression = ''cron(0 * * * ? *)'',
      target = \<lparr>arn = FunctionArn ''RosterOrchestratorFn'',
                roleArn = RoleArn ''RosterBatchSchedulerRole'',
                input = JSON_stringify []\<rparr>,
      description = ''Hourly roster sync for configured targets''\<rparr>"

text \<open>
  Lines 45 to 148, statement by statement; the roster schedule is declared under
  \<^verbatim>\<open>if (username)\<close>.
\<close>

definition body_readme :: "config \<Rightarrow> stmt list" where
  "body_readme cfg =
     [New ''SleeperDataBucket'' (Bucket SleeperDataBucket),
      New ''PlayersSyncFn'' (PythonFunction (PlayersSyncFn (baseEnv_readme cfg))),
      New ''RosterSyncFn'' (PythonFunction (RosterSyncFn (baseEnv_readme cfg))),
      Grant (grantReadWrite ''SleeperDataBucket'' ''PlayersSyncFn''),
      Grant (grantReadWrite ''SleeperDataBucket'' ''RosterSyncFn''),
      New ''RosterOrchestratorFn'' (PythonFunction (RosterOrchestratorFn (baseEnv_readme cfg))),
      Grant (grantReadWrite ''SleeperDataBucket'' ''RosterOrchestratorFn''),
      New ''PlayersSchedulerRole'' (Role SchedulerRole),
      Grant (grantInvoke ''PlayersSyncFn'' ''PlayersSchedulerRole''),
      New ''PlayersDailySchedule'' (CfnSchedule PlayersDailySchedule),
      New ''RosterSchedulerRole'' (Role SchedulerRole),
      Grant (grantInvoke ''RosterSyncFn'' ''RosterSchedulerRole'')]
     @ (if truthy (username cfg)
        then [New ''RosterEveryNMinutes'' (CfnSchedule (RosterEveryNMinutes cfg))]
        else [])
     @ [New ''RosterBatchSchedulerRole'' (Role SchedulerRole),
        Grant (grantInvoke ''RosterOrchestratorFn'' ''RosterBatchSchedulerRole''),
        New ''RosterHourlySchedule'' (CfnSchedule RosterHourlySchedule),
        New ''BucketName'' (CfnOutput (BucketName ''SleeperDataBucket'')),
        New ''PlayersFnName'' (CfnOutput (FunctionName ''PlayersSyncFn'')),
        New ''RosterFnName'' (CfnOutput (FunctionName ''RosterSyncFn'')),
        New ''RosterOrchestratorFnName'' (CfnOutput (FunctionName ''RosterOrchestratorFn''))]"

definition AiGmSleeperStack_readme :: "int \<Rightarrow> (string \<rightharpoonup> jsval) \<Rightarrow> error + Stack" where
  "AiGmSleeperStack_readme year ctx = exec (body_readme (config_readme year ctx)) empty_stack"

section \<open>Definitions used to state the properties\<close>

text \<open>The constructs and the grants a list of statements declares, in order.\<close>

fun news :: "stmt list \<Rightarrow> (string \<times> resource) list" where
  "news [] = []"
| "news (New i r # cs) = (i, r) # news cs"
| "news (Grant g # cs) = news cs"

fun grants_of :: "stmt list \<Rightarrow> grant list" where
  "grants_of [] = []"
| "grants_of (New i r # cs) = grants_of cs"
| "grants_of (Grant g # cs) = g # grants_of cs"

text \<open>The keys the constructors pass to \<^verbatim>\<open>tryGetContext\<close>.\<close>

definition context_keys :: "string list" where
  "context_keys = [''username'', ''season'', ''leagueId'', ''rosterEvery'', ''playersPrefix'', ''rosterPrefix'']"

text \<open>The construct a grant gives a permission to.\<close>

fun grantee :: "grant \<Rightarrow> string" where
  "grantee (grantReadWrite b f) = f"
| "grantee (grantInvoke f r) = r"

text \<open>
  A schedule is wired to its target when the target is a function \<open>f\<close> of the stack, the
  role is a role \<open>r\<close> of the stack that only \<^verbatim>\<open>scheduler.amazonaws.com\<close> can assume, and
  what \<open>r\<close> is granted is to invoke \<open>f\<close> and nothing else.
\<close>

definition role_wired :: "Stack \<Rightarrow> CfnScheduleProps \<Rightarrow> bool" where
  "role_wired st p =
     (case (arn (target p), roleArn (target p)) of
        (FunctionArn f, RoleArn r) \<Rightarrow>
          f \<in> set (map fst (pythonFunctions st)) \<and>
          map_of (roles st) r = Some \<lparr>assumedBy = ServicePrincipal ''scheduler.amazonaws.com''\<rparr> \<and>
          filter (\<lambda>g. grantee g = r) (grants st) = [grantInvoke f r]
      | _ \<Rightarrow> False)"

text \<open>
  A rate expression of one unit, minutes: \<^verbatim>\<open>rate(\<close>, a positive whole number in decimal
  digits, \<^verbatim>\<open> minutes)\<close>.
\<close>

fun strip_prefix :: "string \<Rightarrow> string \<Rightarrow> string option" where
  "strip_prefix [] s = Some s"
| "strip_prefix (c # cs) [] = None"
| "strip_prefix (c # cs) (d # ds) = (if c = d then strip_prefix cs ds else None)"

definition well_formed_rate :: "string \<Rightarrow> bool" where
  "well_formed_rate s =
     (case strip_prefix ''rate('' s of
        None \<Rightarrow> False
      | Some r \<Rightarrow>
          (case strip_prefix (rev '' minutes)'') (rev r) of
             None \<Rightarrow> False
           | Some d \<Rightarrow> d \<noteq> [] \<and> list_all is_digit d \<and> list_ex (\<lambda>c. c \<noteq> CHR ''0'') d))"

section \<open>Running a constructor\<close>

lemma exec_distinct:
  "distinct (map fst (children st) @ map fst (news cs)) \<Longrightarrow>
   exec cs st = Inr \<lparr>children = children st @ news cs, grants = grants st @ grants_of cs\<rparr>"
proof (induction cs arbitrary: st)
  case Nil
  then show ?case by simp
next
  case (Cons c cs)
  then show ?case
    by (cases c) auto
qed

lemma news_body_lib:
  "news (body_lib cfg) =
     [(''SleeperDataBucket'', Bucket SleeperDataBucket),
      (''PlayersSyncFn'', PythonFunction (PlayersSyncFn (baseEnv_lib cfg))),
      (''RosterSyncFn'', PythonFunction (RosterSyncFn (baseEnv_lib cfg))),
      (''PlayersSchedulerRole'', Role SchedulerRole),
      (''PlayersDailySchedule'', CfnSchedule PlayersDailySchedule),
      (''RosterSchedulerRole'', Role SchedulerRole),
      (''RosterEveryNMinutes'', CfnSchedule (RosterEveryNMinutes cfg)),
      (''BucketName'', CfnOutput (BucketName ''SleeperDataBucket'')),
      (''PlayersFnName'', CfnOutput (FunctionName ''PlayersSyncFn'')),
      (''RosterFnName'', CfnOutput (FunctionName ''RosterSyncFn''))]"
  by (simp add: body_lib_def)

lemma grants_body_lib:
  "grants_of (body_lib cfg) =
     [grantReadWrite ''SleeperDataBucket'' ''PlayersSyncFn'',
      grantReadWrite ''SleeperDataBucket'' ''RosterSyncFn'',
      grantInvoke ''PlayersSyncFn'' ''PlayersSchedulerRole'',
      grantInvoke ''RosterSyncFn'' ''RosterSchedulerRole'']"
  by (simp add: body_lib_def)

lemma news_append: "news (xs @ ys) = news xs @ news ys"
  by (induction xs rule: news.induct) simp_all

lemma grants_of_append: "grants_of (xs @ ys) = grants_of xs @ grants_of ys"
  by (induction xs rule: grants_of.induct) simp_all

lemma news_body_readme:
  "news (body_readme cfg) =
     [(''SleeperDataBucket'', Bucket SleeperDataBucket),
      (''PlayersSyncFn'', PythonFunction (PlayersSyncFn (baseEnv_readme cfg))),
      (''RosterSyncFn'', PythonFunction (RosterSyncFn (baseEnv_readme cfg))),
      (''RosterOrchestratorFn'', PythonFunction (RosterOrchestratorFn (baseEnv_readme cfg))),
      (''PlayersSchedulerRole'', Role SchedulerRole),
      (''PlayersDailySchedule'', CfnSchedule PlayersDailySchedule),
      (''RosterSchedulerRole'', Role SchedulerRole)]
     @ (if truthy (username cfg)
        then [(''RosterEveryNMinutes'', CfnSchedule (RosterEveryNMinutes cfg))]
        else [])
     @ [(''RosterBatchSchedulerRole'', Role SchedulerRole),
        (''RosterHourlySchedule'', CfnSchedule RosterHourlySchedule),
        (''BucketName'', CfnOutput (BucketName ''SleeperDataBucket'')),
        (''PlayersFnName'', CfnOutput (FunctionName ''PlayersSyncFn'')),
        (''RosterFnName'', CfnOutput (FunctionName ''RosterSyncFn'')),
        (''RosterOrchestratorFnName'', CfnOutput (FunctionName ''RosterOrchestratorFn''))]"
  by (simp add: body_readme_def news_append)

lemma grants_body_readme:
  "grants_of (body_readme cfg) =
     [grantReadWrite ''SleeperDataBucket'' ''PlayersSyncFn'',
      grantReadWrite ''SleeperDataBucket'' ''RosterSyncFn'',
      grantReadWrite ''SleeperDataBucket'' ''RosterOrchestratorFn'',
      grantInvoke ''PlayersSyncFn'' ''PlayersSchedulerRole'',
      grantInvoke ''RosterSyncFn'' ''RosterSchedulerRole'',
      grantInvoke ''RosterOrchestratorFn'' ''RosterBatchSchedulerRole'']"
  by (simp add: body_readme_def grants_of_append)

text \<open>Neither constructor uses an id twice, so both run to the end.\<close>

lemma lib_runs:
  "AiGmSleeperStack_lib ctx =
     Inr \<lparr>children = news (body_lib (config_lib ctx)), grants = grants_of (body_lib (config_lib ctx))\<rparr>"
proof -
  have "distinct (map fst (children empty_stack) @ map fst (news (body_lib (config_lib ctx))))"
    by (simp add: news_body_lib empty_stack_def)
  from exec_distinct [OF this] show ?thesis
    by (simp add: AiGmSleeperStack_lib_def empty_stack_def)
qed

lemma readme_runs:
  "AiGmSleeperStack_readme year ctx =
     Inr \<lparr>children = news (body_readme (config_readme year ctx)),
          grants = grants_of (body_readme (config_readme year ctx))\<rparr>"
proof -
  have "distinct (map fst (children empty_stack) @ map fst (news (body_readme (config_readme year ctx))))"
    by (simp add: news_body_readme empty_stack_def)
  from exec_distinct [OF this] show ?thesis
    by (simp add: AiGmSleeperStack_readme_def empty_stack_def)
qed


text \<open>The schedules that target the roster function.\<close>

lemma lib_roster_schedule:
  "schedules_targeting ''RosterSyncFn'' \<lparr>children = news (body_lib cfg), grants = g\<rparr> =
     [(''RosterEveryNMinutes'', RosterEveryNMinutes cfg)]"
  by (simp add: news_body_lib schedules_def schedules_targeting_def
      PlayersDailySchedule_def RosterEveryNMinutes_def)

lemma readme_roster_schedule:
  "schedules_targeting ''RosterSyncFn'' \<lparr>children = news (body_readme cfg), grants = g\<rparr> =
     (if truthy (username cfg) then [(''RosterEveryNMinutes'', RosterEveryNMinutes cfg)] else [])"
  by (simp add: news_body_readme schedules_def schedules_targeting_def
      PlayersDailySchedule_def RosterEveryNMinutes_def RosterHourlySchedule_def)

section \<open>The claims\<close>

text \<open>
  Claim C2. The stack declares exactly three invocable functions, with entry handlers
  named \<^verbatim>\<open>players_lambda_handler\<close>, \<^verbatim>\<open>roster_lambda_handler\<close> and
  \<^verbatim>\<open>roster_scheduler_handler\<close> respectively. As amended: that is the stack of the
  snapshot in \<^verbatim>\<open>src/infra/README.md\<close>, whose functions are \<^verbatim>\<open>PlayersSyncFn\<close>,
  \<^verbatim>\<open>RosterSyncFn\<close> and \<^verbatim>\<open>RosterOrchestratorFn\<close> with these handlers; the stack of
  \<^verbatim>\<open>src/infra/lib/ai-gm-stack.ts\<close> declares exactly the first two, and no function with
  the handler \<^verbatim>\<open>roster_scheduler_handler\<close>. Both for every context.
\<close>

theorem C2_functions_per_snapshot:
  "(\<exists>st. AiGmSleeperStack_readme year ctx = Inr st \<and>
      map (\<lambda>ip. (fst ip, handler (snd ip))) (pythonFunctions st) =
        [(''PlayersSyncFn'', ''players_lambda_handler''),
         (''RosterSyncFn'', ''roster_lambda_handler''),
         (''RosterOrchestratorFn'', ''roster_scheduler_handler'')]) \<and>
   (\<exists>st. AiGmSleeperStack_lib ctx = Inr st \<and>
      map (\<lambda>ip. (fst ip, handler (snd ip))) (pythonFunctions st) =
        [(''PlayersSyncFn'', ''players_lambda_handler''),
         (''RosterSyncFn'', ''roster_lambda_handler'')])"
  by (simp add: readme_runs lib_runs news_body_readme news_body_lib pythonFunctions_def
      PlayersSyncFn_def RosterSyncFn_def RosterOrchestratorFn_def)

text \<open>
  The claim as stated fails of \<^verbatim>\<open>src/infra/lib/ai-gm-stack.ts\<close>: with no context, its
  stack has two functions, with these two handlers.
\<close>

theorem C2_counterexample:
  "map_sum id (\<lambda>st. map (\<lambda>ip. handler (snd ip)) (pythonFunctions st))
     (AiGmSleeperStack_lib Map.empty) =
   Inr [''players_lambda_handler'', ''roster_lambda_handler'']"
  by (simp add: lib_runs news_body_lib pythonFunctions_def PlayersSyncFn_def RosterSyncFn_def)

text \<open>
  Claim C4. The single object-storage bucket declared by the stack is configured with
  versioning enabled, provider-managed encryption at rest, a lifecycle rule expiring
  non-current object versions after 90 days, and a removal policy that retains the bucket
  on stack teardown. In both snapshots and for every context, the constructor runs to the
  end and the buckets of the stack are the one \<^verbatim>\<open>SleeperDataBucket\<close>, whose properties
  are these.
\<close>

theorem C4_bucket:
  "(\<exists>st. AiGmSleeperStack_lib ctx = Inr st \<and>
      buckets st = [(''SleeperDataBucket'', SleeperDataBucket)]) \<and>
   (\<exists>st. AiGmSleeperStack_readme year ctx = Inr st \<and>
      buckets st = [(''SleeperDataBucket'', SleeperDataBucket)]) \<and>
   versioned SleeperDataBucket \<and>
   encryption SleeperDataBucket = S3_MANAGED \<and>
   map noncurrentVersionExpiration (lifecycleRules SleeperDataBucket) = [days 90] \<and>
   removalPolicy SleeperDataBucket = RETAIN"
  by (simp add: lib_runs readme_runs news_body_lib news_body_readme buckets_def
      SleeperDataBucket_def)

text \<open>
  Claim C5. The stack declares exactly one daily players-refresh schedule whose schedule
  expression is the fixed cron string \<^verbatim>\<open>cron(5 6 * * ? *)\<close> evaluated in the fixed
  timezone \<^verbatim>\<open>America/Los_Angeles\<close>, targeting the players sync function with an empty
  JSON object as input. In both snapshots and for every context, one schedule targets
  \<^verbatim>\<open>PlayersSyncFn\<close> and one has the id \<^verbatim>\<open>PlayersDailySchedule\<close>, the same one, with
  this expression, timezone, target and input.
\<close>

theorem C5_players_daily_schedule:
  "(\<exists>st. AiGmSleeperStack_lib ctx = Inr st \<and>
      schedules_targeting ''PlayersSyncFn'' st = [(''PlayersDailySchedule'', PlayersDailySchedule)] \<and>
      filter (\<lambda>ip. fst ip = ''PlayersDailySchedule'') (schedules st) =
        [(''PlayersDailySchedule'', PlayersDailySchedule)]) \<and>
   (\<exists>st. AiGmSleeperStack_readme year ctx = Inr st \<and>
      schedules_targeting ''PlayersSyncFn'' st = [(''PlayersDailySchedule'', PlayersDailySchedule)] \<and>
      filter (\<lambda>ip. fst ip = ''PlayersDailySchedule'') (schedules st) =
        [(''PlayersDailySchedule'', PlayersDailySchedule)]) \<and>
   scheduleExpression PlayersDailySchedule = ''cron(5 6 * * ? *)'' \<and>
   scheduleExpressionTimezone PlayersDailySchedule = Some ''America/Los_Angeles'' \<and>
   arn (target PlayersDailySchedule) = FunctionArn ''PlayersSyncFn'' \<and>
   input (target PlayersDailySchedule) = ''{}''"
  by (simp add: lib_runs readme_runs news_body_lib news_body_readme schedules_def
      schedules_targeting_def PlayersDailySchedule_def RosterEveryNMinutes_def
      RosterHourlySchedule_def JSON_stringify_def)

text \<open>
  Claim C7. Every function declared by the stack is configured with a memory size and a
  timeout, and every function's environment contains the same shared bindings naming the
  bucket (\<^verbatim>\<open>S3_BUCKET\<close>) and the key prefixes (\<^verbatim>\<open>PLAYERS_S3_PREFIX\<close>,
  \<^verbatim>\<open>ROSTER_S3_PREFIX\<close>). In both snapshots and for every context: each function has
  512 MB and a timeout of its own, and in each function's environment \<^verbatim>\<open>S3_BUCKET\<close> is
  the name of the stack's one bucket and the two prefixes are the configured ones.
\<close>

theorem C7_function_budget_and_environment:
  "(\<exists>st. AiGmSleeperStack_lib ctx = Inr st \<and>
      map (\<lambda>ip. (fst ip, memorySize (snd ip), timeout (snd ip))) (pythonFunctions st) =
        [(''PlayersSyncFn'', 512, seconds 120), (''RosterSyncFn'', 512, seconds 60)] \<and>
      map (\<lambda>ip. map (map_of (environment (snd ip)))
                   [''S3_BUCKET'', ''PLAYERS_S3_PREFIX'', ''ROSTER_S3_PREFIX''])
          (pythonFunctions st) =
        replicate 2
          [Some (Tok (BucketName ''SleeperDataBucket'')),
           Some (Val (playersPrefix (config_lib ctx))),
           Some (Val (rosterPrefix (config_lib ctx)))] \<and>
      map fst (buckets st) = [''SleeperDataBucket'']) \<and>
   (\<exists>st. AiGmSleeperStack_readme year ctx = Inr st \<and>
      map (\<lambda>ip. (fst ip, memorySize (snd ip), timeout (snd ip))) (pythonFunctions st) =
        [(''PlayersSyncFn'', 512, seconds 120), (''RosterSyncFn'', 512, seconds 60),
         (''RosterOrchestratorFn'', 512, seconds 240)] \<and>
      map (\<lambda>ip. map (map_of (environment (snd ip)))
                   [''S3_BUCKET'', ''PLAYERS_S3_PREFIX'', ''ROSTER_S3_PREFIX''])
          (pythonFunctions st) =
        replicate 3
          [Some (Tok (BucketName ''SleeperDataBucket'')),
           Some (Val (playersPrefix (config_readme year ctx))),
           Some (Val (rosterPrefix (config_readme year ctx)))] \<and>
      map fst (buckets st) = [''SleeperDataBucket''])"
  by (simp add: lib_runs readme_runs news_body_lib news_body_readme pythonFunctions_def
      buckets_def PlayersSyncFn_def RosterSyncFn_def RosterOrchestratorFn_def
      baseEnv_lib_def baseEnv_readme_def numeral_2_eq_2 numeral_3_eq_3)

text \<open>
  Claim C10. Every schedule declared by the stack targets a function through a dedicated
  IAM role that is assumable only by the \<^verbatim>\<open>scheduler.amazonaws.com\<close> service principal
  and is granted invoke permission on exactly its own target function, and every sync
  function is granted both read and write access to the single data bucket. In both
  snapshots and for every context: every schedule is wired to its target, no two schedules
  share a role, and every function has the read-write grant on the one bucket.
\<close>

theorem C10_roles_and_grants:
  "(\<exists>st. AiGmSleeperStack_lib ctx = Inr st \<and>
      schedules st \<noteq> [] \<and>
      list_all (role_wired st) (map snd (schedules st)) \<and>
      distinct (map (\<lambda>ip. roleArn (target (snd ip))) (schedules st)) \<and>
      map fst (buckets st) = [''SleeperDataBucket''] \<and>
      pythonFunctions st \<noteq> [] \<and>
      list_all (\<lambda>ip. grantReadWrite ''SleeperDataBucket'' (fst ip) \<in> set (grants st))
        (pythonFunctions st)) \<and>
   (\<exists>st. AiGmSleeperStack_readme year ctx = Inr st \<and>
      schedules st \<noteq> [] \<and>
      list_all (role_wired st) (map snd (schedules st)) \<and>
      distinct (map (\<lambda>ip. roleArn (target (snd ip))) (schedules st)) \<and>
      map fst (buckets st) = [''SleeperDataBucket''] \<and>
      pythonFunctions st \<noteq> [] \<and>
      list_all (\<lambda>ip. grantReadWrite ''SleeperDataBucket'' (fst ip) \<in> set (grants st))
        (pythonFunctions st))"
  by (simp add: lib_runs readme_runs news_body_lib news_body_readme grants_body_lib
      grants_body_readme pythonFunctions_def buckets_def schedules_def roles_def
      role_wired_def PlayersDailySchedule_def RosterEveryNMinutes_def
      RosterHourlySchedule_def SchedulerRole_def)

text \<open>
  Claim C1. A schedule resource targeting the roster sync function is created if and only
  if a username context value is supplied at deploy time; when no username is supplied,
  the emitted stack contains no roster schedule. As amended: in the snapshot of
  \<^verbatim>\<open>src/infra/README.md\<close> the guard is \<^verbatim>\<open>if (username)\<close>, so the schedule is created if
  and only if the username context value is truthy (a non-empty string, for one), and
  when no username is supplied that stack contains no roster schedule; in
  \<^verbatim>\<open>src/infra/lib/ai-gm-stack.ts\<close> there is no guard, and the schedule is created for
  every context, with or without a username.
\<close>

theorem C1_roster_schedule_per_snapshot:
  "(\<exists>st. AiGmSleeperStack_readme year ctx = Inr st \<and>
      map fst (schedules_targeting ''RosterSyncFn'' st) =
        (if truthy (tryGetContext ctx ''username'') then [''RosterEveryNMinutes''] else []) \<and>
      (ctx ''username'' = None \<longrightarrow> schedules_targeting ''RosterSyncFn'' st = [])) \<and>
   (\<exists>st. AiGmSleeperStack_lib ctx = Inr st \<and>
      map fst (schedules_targeting ''RosterSyncFn'' st) = [''RosterEveryNMinutes''])"
  by (simp add: readme_runs lib_runs readme_roster_schedule lib_roster_schedule)
    (auto simp: config_readme_def tryGetContext_def split: option.splits)

text \<open>
  In the snapshot with the guard: no schedule targets the roster function with no
  context, and one does with the username \<^verbatim>\<open>alice\<close>. In the other snapshot one does
  too.
\<close>

theorem C1_witness:
  "(Map.empty :: string \<rightharpoonup> jsval) ''username'' = None \<and>
   map_sum id (\<lambda>st. map fst (schedules_targeting ''RosterSyncFn'' st))
     (AiGmSleeperStack_readme 2025 Map.empty) = Inr [] \<and>
   map_sum id (\<lambda>st. map fst (schedules_targeting ''RosterSyncFn'' st))
     (AiGmSleeperStack_readme 2025 (Map.empty(''username'' \<mapsto> JStr ''alice''))) =
     Inr [''RosterEveryNMinutes''] \<and>
   map_sum id (\<lambda>st. map fst (schedules_targeting ''RosterSyncFn'' st))
     (AiGmSleeperStack_lib (Map.empty(''username'' \<mapsto> JStr ''alice''))) =
     Inr [''RosterEveryNMinutes'']"
proof -
  have alice: "truthy (tryGetContext (Map.empty(''username'' \<mapsto> JStr ''alice'')) ''username'')"
    by (simp add: tryGetContext_def)
  have none: "\<not> truthy (tryGetContext Map.empty ''username'')"
    by (simp add: tryGetContext_def)
  from C1_roster_schedule_per_snapshot [of 2025 Map.empty] none have A:
    "map_sum id (\<lambda>st. map fst (schedules_targeting ''RosterSyncFn'' st))
       (AiGmSleeperStack_readme 2025 Map.empty) = Inr []"
    by auto
  from C1_roster_schedule_per_snapshot [of 2025 "Map.empty(''username'' \<mapsto> JStr ''alice'')"] alice
  have B: "map_sum id (\<lambda>st. map fst (schedules_targeting ''RosterSyncFn'' st))
       (AiGmSleeperStack_readme 2025 (Map.empty(''username'' \<mapsto> JStr ''alice''))) =
       Inr [''RosterEveryNMinutes'']"
    and C: "map_sum id (\<lambda>st. map fst (schedules_targeting ''RosterSyncFn'' st))
       (AiGmSleeperStack_lib (Map.empty(''username'' \<mapsto> JStr ''alice''))) =
       Inr [''RosterEveryNMinutes'']"
    by auto
  from A B C show ?thesis
    by simp
qed

text \<open>
  The claim as stated fails twice. In the snapshot with the guard, the username supplied
  as the empty string (\<^verbatim>\<open>-c username=\<close>) is a value supplied, and no schedule targets
  the roster function. In \<^verbatim>\<open>src/infra/lib/ai-gm-stack.ts\<close>, with no username supplied,
  the roster schedule is declared.
\<close>

theorem C1_counterexample:
  "(Map.empty(''username'' \<mapsto> JStr [])) ''username'' = Some (JStr []) \<and>
   map_sum id (schedules_targeting ''RosterSyncFn'')
     (AiGmSleeperStack_readme 2025 (Map.empty(''username'' \<mapsto> JStr []))) = Inr [] \<and>
   (Map.empty :: string \<rightharpoonup> jsval) ''username'' = None \<and>
   map_sum id (\<lambda>st. map fst (schedules_targeting ''RosterSyncFn'' st))
     (AiGmSleeperStack_lib Map.empty) = Inr [''RosterEveryNMinutes'']"
  by (simp add: readme_runs lib_runs readme_roster_schedule lib_roster_schedule)
    (simp add: config_readme_def tryGetContext_def)

text \<open>
  Claim C3. The stack declares four time-based schedule triggers: a daily players refresh,
  an optional fixed-interval roster refresh for one configured identity, and an hourly
  orchestrator trigger that fans out across a configurable target list. As amended: the
  triggers are three, not four, in the snapshot of \<^verbatim>\<open>src/infra/README.md\<close>: the daily
  players refresh and the hourly trigger always, the fixed-interval roster refresh between
  them only when the username is truthy, so that stack has two or three schedules; the
  hourly trigger targets the orchestrator function, whose handler is
  \<^verbatim>\<open>roster_scheduler_handler\<close> and whose environment names the configurable target list
  it fans out across (\<^verbatim>\<open>ROSTER_TARGETS_KEY\<close>). The stack of
  \<^verbatim>\<open>src/infra/lib/ai-gm-stack.ts\<close> declares two triggers for every context, the daily
  players refresh and the fixed-interval roster refresh, and no hourly trigger.
\<close>

theorem C3_schedules_per_snapshot:
  "(\<exists>st. AiGmSleeperStack_readme year ctx = Inr st \<and>
      map (\<lambda>ip. (fst ip, scheduleExpression (snd ip), arn (target (snd ip)))) (schedules st) =
        [(''PlayersDailySchedule'', ''cron(5 6 * * ? *)'', FunctionArn ''PlayersSyncFn'')]
        @ (if truthy (tryGetContext ctx ''username'')
           then [(''RosterEveryNMinutes'',
                  ''rate('' @ Number_toString (rosterEvery (config_readme year ctx)) @ '' minutes)'',
                  FunctionArn ''RosterSyncFn'')]
           else [])
        @ [(''RosterHourlySchedule'', ''cron(0 * * * ? *)'', FunctionArn ''RosterOrchestratorFn'')] \<and>
      length (schedules st) = (if truthy (tryGetContext ctx ''username'') then 3 else 2) \<and>
      map (\<lambda>ip. (handler (snd ip), map_of (environment (snd ip)) ''ROSTER_TARGETS_KEY''))
          (filter (\<lambda>ip. fst ip = ''RosterOrchestratorFn'') (pythonFunctions st)) =
        [(''roster_scheduler_handler'', Some (Val (JStr ''sleeper/config/roster_targets.json'')))]) \<and>
   (\<exists>st. AiGmSleeperStack_lib ctx = Inr st \<and>
      map (\<lambda>ip. (fst ip, scheduleExpression (snd ip), arn (target (snd ip)))) (schedules st) =
        [(''PlayersDailySchedule'', ''cron(5 6 * * ? *)'', FunctionArn ''PlayersSyncFn''),
         (''RosterEveryNMinutes'',
          ''rate('' @ Number_toString (rosterEvery (config_lib ctx)) @ '' minutes)'',
          FunctionArn ''RosterSyncFn'')] \<and>
      length (schedules st) = 2)"
  by (simp add: readme_runs lib_runs news_body_readme news_body_lib schedules_def
      pythonFunctions_def config_readme_def PlayersDailySchedule_def RosterEveryNMinutes_def
      RosterHourlySchedule_def RosterOrchestratorFn_def baseEnv_readme_def
      del: Number_toString.simps)

text \<open>
  With a username supplied, every trigger a snapshot has is declared: they are three in
  the one and two in the other, in neither four.
\<close>

theorem C3_counterexample:
  "map_sum id (\<lambda>st. length (schedules st))
     (AiGmSleeperStack_readme 2025 (Map.empty(''username'' \<mapsto> JStr ''alice''))) = Inr 3 \<and>
   map_sum id (\<lambda>st. length (schedules st))
     (AiGmSleeperStack_lib (Map.empty(''username'' \<mapsto> JStr ''alice''))) = Inr 2"
  by (simp add: readme_runs lib_runs news_body_readme news_body_lib schedules_def
      config_readme_def tryGetContext_def)

text \<open>What the constructors read from the context, and where it goes.\<close>

lemma config_depends_on_keys:
  assumes "\<forall>k\<in>set context_keys. ctx k = ctx' k"
  shows "config_lib ctx = config_lib ctx'" and "config_readme year ctx = config_readme year ctx'"
  using assms by (simp_all add: context_keys_def config_lib_def config_readme_def tryGetContext_def)

lemma stack_depends_on_keys:
  "(\<forall>k\<in>set context_keys. ctx k = ctx' k) \<longrightarrow>
      AiGmSleeperStack_lib ctx = AiGmSleeperStack_lib ctx' \<and>
      AiGmSleeperStack_readme year ctx = AiGmSleeperStack_readme year ctx'"
proof (rule impI)
  assume same: "\<forall>k\<in>set context_keys. ctx k = ctx' k"
  from config_depends_on_keys [OF same] show
    "AiGmSleeperStack_lib ctx = AiGmSleeperStack_lib ctx' \<and>
     AiGmSleeperStack_readme year ctx = AiGmSleeperStack_readme year ctx'"
    by (simp add: AiGmSleeperStack_lib_def AiGmSleeperStack_readme_def)
qed

lemma config_absent:
  "ctx ''username'' = None \<longrightarrow>
      username (config_lib ctx) = JStr ''YOUR_SLEEPER_USERNAME'' \<and>
      username (config_readme year ctx) = JUndefined"
  "ctx ''season'' = None \<longrightarrow>
      season (config_lib ctx) = Fin 2025 \<and>
      season (config_readme year ctx) = Fin (of_int year)"
  "ctx ''leagueId'' = None \<longrightarrow>
      leagueId (config_lib ctx) = JUndefined \<and>
      leagueId (config_readme year ctx) = JUndefined"
  "ctx ''rosterEvery'' = None \<longrightarrow>
      rosterEvery (config_lib ctx) = Fin 10 \<and>
      rosterEvery (config_readme year ctx) = Fin 10"
  "ctx ''playersPrefix'' = None \<longrightarrow>
      playersPrefix (config_lib ctx) = JStr ''sleeper/players'' \<and>
      playersPrefix (config_readme year ctx) = JStr ''sleeper/players''"
  "ctx ''rosterPrefix'' = None \<longrightarrow>
      rosterPrefix (config_lib ctx) = JStr ''sleeper_sync'' \<and>
      rosterPrefix (config_readme year ctx) = JStr ''sleeper/rosters''"
  by (simp_all add: config_lib_def config_readme_def tryGetContext_def or_else_def nullish_else_def)

lemma config_supplied:
  "ctx ''username'' = Some u \<longrightarrow>
      username (config_lib ctx) = (if truthy u then u else JStr ''YOUR_SLEEPER_USERNAME'') \<and>
      username (config_readme year ctx) = u"
  "ctx ''season'' = Some s \<longrightarrow>
      season (config_lib ctx) = (if s = JUndefined \<or> s = JNull then Fin 2025 else Number s) \<and>
      season (config_readme year ctx) =
        (if s = JUndefined \<or> s = JNull then Fin (of_int year) else Number s)"
  "ctx ''leagueId'' = Some l \<longrightarrow>
      leagueId (config_lib ctx) = (if truthy l then l else JUndefined) \<and>
      leagueId (config_readme year ctx) = (if truthy l then l else JUndefined)"
  "ctx ''rosterEvery'' = Some r \<longrightarrow>
      rosterEvery (config_lib ctx) = (if r = JUndefined \<or> r = JNull then Fin 10 else Number r) \<and>
      rosterEvery (config_readme year ctx) =
        (if r = JUndefined \<or> r = JNull then Fin 10 else Number r)"
  "ctx ''playersPrefix'' = Some p \<longrightarrow>
      playersPrefix (config_lib ctx) = (if truthy p then p else JStr ''sleeper/players'') \<and>
      playersPrefix (config_readme year ctx) = (if truthy p then p else JStr ''sleeper/players'')"
  "ctx ''rosterPrefix'' = Some q \<longrightarrow>
      rosterPrefix (config_lib ctx) = (if truthy q then q else JStr ''sleeper_sync'') \<and>
      rosterPrefix (config_readme year ctx) = (if truthy q then q else JStr ''sleeper/rosters'')"
  by (simp_all add: config_lib_def config_readme_def tryGetContext_def or_else_def nullish_else_def)

lemma lib_uses_config:
  "\<exists>st. AiGmSleeperStack_lib ctx = Inr st \<and>
      map (\<lambda>ip. map (map_of (environment (snd ip))) [''PLAYERS_S3_PREFIX'', ''ROSTER_S3_PREFIX''])
          (pythonFunctions st) =
        replicate 2 [Some (Val (playersPrefix (config_lib ctx))),
                     Some (Val (rosterPrefix (config_lib ctx)))] \<and>
      map (\<lambda>ip. (scheduleExpression (snd ip), input (target (snd ip))))
          (schedules_targeting ''RosterSyncFn'' st) =
        [(''rate('' @ Number_toString (rosterEvery (config_lib ctx)) @ '' minutes)'',
          JSON_stringify [(''username'', username (config_lib ctx)),
                          (''season'', JNum (season (config_lib ctx))),
                          (''league_id'', leagueId (config_lib ctx))])]"
  by (simp add: lib_runs lib_roster_schedule RosterEveryNMinutes_def del: Number_toString.simps)
    (simp add: news_body_lib pythonFunctions_def PlayersSyncFn_def RosterSyncFn_def
      baseEnv_lib_def numeral_2_eq_2)

lemma readme_uses_config:
  "\<exists>st. AiGmSleeperStack_readme year ctx = Inr st \<and>
      map (\<lambda>ip. map (map_of (environment (snd ip))) [''PLAYERS_S3_PREFIX'', ''ROSTER_S3_PREFIX''])
          (pythonFunctions st) =
        replicate 3 [Some (Val (playersPrefix (config_readme year ctx))),
                     Some (Val (rosterPrefix (config_readme year ctx)))] \<and>
      map (\<lambda>ip. (scheduleExpression (snd ip), input (target (snd ip))))
          (schedules_targeting ''RosterSyncFn'' st) =
        (if truthy (username (config_readme year ctx))
         then [(''rate('' @ Number_toString (rosterEvery (config_readme year ctx)) @ '' minutes)'',
                JSON_stringify [(''username'', username (config_readme year ctx)),
                                (''season'', JNum (season (config_readme year ctx))),
                                (''league_id'', leagueId (config_readme year ctx))])]
         else [])"
  by (simp add: readme_runs readme_roster_schedule RosterEveryNMinutes_def del: Number_toString.simps)
    (simp add: news_body_readme pythonFunctions_def PlayersSyncFn_def RosterSyncFn_def
      RosterOrchestratorFn_def baseEnv_readme_def numeral_3_eq_3)

text \<open>
  Claim C6. For every deploy-time context map, the stack reads the named context values
  \<^verbatim>\<open>username\<close>, \<^verbatim>\<open>season\<close>, \<^verbatim>\<open>leagueId\<close>, \<^verbatim>\<open>rosterEvery\<close>, \<^verbatim>\<open>playersPrefix\<close> and
  \<^verbatim>\<open>rosterPrefix\<close>, and for each value that is absent it substitutes that parameter's
  documented default (in particular \<^verbatim>\<open>playersPrefix\<close> defaults to
  \<^verbatim>\<open>sleeper/players\<close> and \<^verbatim>\<open>rosterEvery\<close> defaults to 10). In both snapshots: two
  contexts that agree on these six keys give the same stack; each absent key takes the
  default its snapshot writes; each supplied value is the parameter (under \<^verbatim>\<open>Number\<close>
  for \<^verbatim>\<open>season\<close> and \<^verbatim>\<open>rosterEvery\<close>, and replaced by the default where \<^verbatim>\<open>||\<close> finds
  it falsy or \<^verbatim>\<open>??\<close> finds it null); and the parameters are what the stack holds: the
  two prefixes in every function's environment, \<^verbatim>\<open>rosterEvery\<close> in the roster
  schedule's expression, \<^verbatim>\<open>username\<close>, \<^verbatim>\<open>season\<close> and \<^verbatim>\<open>leagueId\<close> in its input.
\<close>

theorem C6_context_defaults:
  "((\<forall>k\<in>set context_keys. ctx k = ctx' k) \<longrightarrow>
      AiGmSleeperStack_lib ctx = AiGmSleeperStack_lib ctx' \<and>
      AiGmSleeperStack_readme year ctx = AiGmSleeperStack_readme year ctx') \<and>
   (ctx ''username'' = None \<longrightarrow>
      username (config_lib ctx) = JStr ''YOUR_SLEEPER_USERNAME'' \<and>
      username (config_readme year ctx) = JUndefined) \<and>
   (ctx ''season'' = None \<longrightarrow>
      season (config_lib ctx) = Fin 2025 \<and>
      season (config_readme year ctx) = Fin (of_int year)) \<and>
   (ctx ''leagueId'' = None \<longrightarrow>
      leagueId (config_lib ctx) = JUndefined \<and>
      leagueId (config_readme year ctx) = JUndefined) \<and>
   (ctx ''rosterEvery'' = None \<longrightarrow>
      rosterEvery (config_lib ctx) = Fin 10 \<and>
      rosterEvery (config_readme year ctx) = Fin 10) \<and>
   (ctx ''playersPrefix'' = None \<longrightarrow>
      playersPrefix (config_lib ctx) = JStr ''sleeper/players'' \<and>
      playersPrefix (config_readme year ctx) = JStr ''sleeper/players'') \<and>
   (ctx ''rosterPrefix'' = None \<longrightarrow>
      rosterPrefix (config_lib ctx) = JStr ''sleeper_sync'' \<and>
      rosterPrefix (config_readme year ctx) = JStr ''sleeper/rosters'') \<and>
   (ctx ''username'' = Some u \<longrightarrow>
      username (config_lib ctx) = (if truthy u then u else JStr ''YOUR_SLEEPER_USERNAME'') \<and>
      username (config_readme year ctx) = u) \<and>
   (ctx ''season'' = Some s \<longrightarrow>
      season (config_lib ctx) = (if s = JUndefined \<or> s = JNull then Fin 2025 else Number s) \<and>
      season (config_readme year ctx) =
        (if s = JUndefined \<or> s = JNull then Fin (of_int year) else Number s)) \<and>
   (ctx ''leagueId'' = Some l \<longrightarrow>
      leagueId (config_lib ctx) = (if truthy l then l else JUndefined) \<and>
      leagueId (config_readme year ctx) = (if truthy l then l else JUndefined)) \<and>
   (ctx ''rosterEvery'' = Some r \<longrightarrow>
      rosterEvery (config_lib ctx) = (if r = JUndefined \<or> r = JNull then Fin 10 else Number r) \<and>
      rosterEvery (config_readme year ctx) =
        (if r = JUndefined \<or> r = JNull then Fin 10 else Number r)) \<and>
   (ctx ''playersPrefix'' = Some p \<longrightarrow>
      playersPrefix (config_lib ctx) = (if truthy p then p else JStr ''sleeper/players'') \<and>
      playersPrefix (config_readme year ctx) = (if truthy p then p else JStr ''sleeper/players'')) \<and>
   (ctx ''rosterPrefix'' = Some q \<longrightarrow>
      rosterPrefix (config_lib ctx) = (if truthy q then q else JStr ''sleeper_sync'') \<and>
      rosterPrefix (config_readme year ctx) = (if truthy q then q else JStr ''sleeper/rosters'')) \<and>
   (\<exists>st. AiGmSleeperStack_lib ctx = Inr st \<and>
      map (\<lambda>ip. map (map_of (environment (snd ip))) [''PLAYERS_S3_PREFIX'', ''ROSTER_S3_PREFIX''])
          (pythonFunctions st) =
        replicate 2 [Some (Val (playersPrefix (config_lib ctx))),
                     Some (Val (rosterPrefix (config_lib ctx)))] \<and>
      map (\<lambda>ip. (scheduleExpression (snd ip), input (target (snd ip))))
          (schedules_targeting ''RosterSyncFn'' st) =
        [(''rate('' @ Number_toString (rosterEvery (config_lib ctx)) @ '' minutes)'',
          JSON_stringify [(''username'', username (config_lib ctx)),
                          (''season'', JNum (season (config_lib ctx))),
                          (''league_id'', leagueId (config_lib ctx))])]) \<and>
   (\<exists>st. AiGmSleeperStack_readme year ctx = Inr st \<and>
      map (\<lambda>ip. map (map_of (environment (snd ip))) [''PLAYERS_S3_PREFIX'', ''ROSTER_S3_PREFIX''])
          (pythonFunctions st) =
        replicate 3 [Some (Val (playersPrefix (config_readme year ctx))),
                     Some (Val (rosterPrefix (config_readme year ctx)))] \<and>
      map (\<lambda>ip. (scheduleExpression (snd ip), input (target (snd ip))))
          (schedules_targeting ''RosterSyncFn'' st) =
        (if truthy (username (config_readme year ctx))
         then [(''rate('' @ Number_toString (rosterEvery (config_readme year ctx)) @ '' minutes)'',
                JSON_stringify [(''username'', username (config_readme year ctx)),
                                (''season'', JNum (season (config_readme year ctx))),
                                (''league_id'', leagueId (config_readme year ctx))])]
         else []))"
  by (intro conjI stack_depends_on_keys config_absent config_supplied lib_uses_config
      readme_uses_config)

text \<open>
  With no context, every parameter is its default, and a key the constructor does not
  read changes nothing. With all six supplied, every parameter is the value supplied, and
  the roster schedule carries them.
\<close>

theorem C6_witness:
  \<open>config_lib Map.empty =
     \<lparr>username = JStr ''YOUR_SLEEPER_USERNAME'', season = Fin 2025, leagueId = JUndefined,
      rosterEvery = Fin 10, playersPrefix = JStr ''sleeper/players'',
      rosterPrefix = JStr ''sleeper_sync''\<rparr> \<and>
   config_readme 2025 Map.empty =
     \<lparr>username = JUndefined, season = Fin 2025, leagueId = JUndefined,
      rosterEvery = Fin 10, playersPrefix = JStr ''sleeper/players'',
      rosterPrefix = JStr ''sleeper/rosters''\<rparr> \<and>
   list_all (\<lambda>k. (Map.empty :: string \<rightharpoonup> jsval) k = (Map.empty(''stage'' \<mapsto> JStr ''prod'')) k) context_keys \<and>
   AiGmSleeperStack_lib Map.empty = AiGmSleeperStack_lib (Map.empty(''stage'' \<mapsto> JStr ''prod'')) \<and>
   AiGmSleeperStack_readme 2025 Map.empty =
     AiGmSleeperStack_readme 2025 (Map.empty(''stage'' \<mapsto> JStr ''prod'')) \<and>
   config_lib (Map.empty(''username'' \<mapsto> JStr ''alice'', ''season'' \<mapsto> JStr ''2024'',
       ''leagueId'' \<mapsto> JStr ''L1'', ''rosterEvery'' \<mapsto> JStr ''5'',
       ''playersPrefix'' \<mapsto> JStr ''p/x'', ''rosterPrefix'' \<mapsto> JStr ''r/x'')) =
     \<lparr>username = JStr ''alice'', season = Fin 2024, leagueId = JStr ''L1'',
      rosterEvery = Fin 5, playersPrefix = JStr ''p/x'', rosterPrefix = JStr ''r/x''\<rparr> \<and>
   config_readme 2025 (Map.empty(''username'' \<mapsto> JStr ''alice'', ''season'' \<mapsto> JStr ''2024'',
       ''leagueId'' \<mapsto> JStr ''L1'', ''rosterEvery'' \<mapsto> JStr ''5'',
       ''playersPrefix'' \<mapsto> JStr ''p/x'', ''rosterPrefix'' \<mapsto> JStr ''r/x'')) =
     \<lparr>username = JStr ''alice'', season = Fin 2024, leagueId = JStr ''L1'',
      rosterEvery = Fin 5, playersPrefix = JStr ''p/x'', rosterPrefix = JStr ''r/x''\<rparr> \<and>
   map_sum id (\<lambda>st. map (\<lambda>ip. (scheduleExpression (snd ip), input (target (snd ip))))
                     (schedules_targeting ''RosterSyncFn'' st))
     (AiGmSleeperStack_readme 2025 (Map.empty(''username'' \<mapsto> JStr ''alice'', ''season'' \<mapsto> JStr ''2024'',
       ''leagueId'' \<mapsto> JStr ''L1'', ''rosterEvery'' \<mapsto> JStr ''5'',
       ''playersPrefix'' \<mapsto> JStr ''p/x'', ''rosterPrefix'' \<mapsto> JStr ''r/x''))) =
     Inr [(''rate(5 minutes)'', ''{"username":"alice","season":2024,"league_id":"L1"}'')]\<close>
proof -
  let ?full = "Map.empty(''username'' \<mapsto> JStr ''alice'', ''season'' \<mapsto> JStr ''2024'',
       ''leagueId'' \<mapsto> JStr ''L1'', ''rosterEvery'' \<mapsto> JStr ''5'',
       ''playersPrefix'' \<mapsto> JStr ''p/x'', ''rosterPrefix'' \<mapsto> JStr ''r/x'')"
  have numbers: "Number (JStr ''2024'') = Fin 2024" "Number (JStr ''5'') = Fin 5"
    by code_simp+
  note absent = C6_context_defaults
    [where ctx = Map.empty and ctx' = "Map.empty(''stage'' \<mapsto> JStr ''prod'')" and year = 2025]
  note supplied = C6_context_defaults
    [where ctx = ?full and ctx' = ?full and year = 2025 and u = "JStr ''alice''"
       and s = "JStr ''2024''" and l = "JStr ''L1''" and r = "JStr ''5''"
       and p = "JStr ''p/x''" and q = "JStr ''r/x''"]
  have defaults:
    "config_lib Map.empty =
     \<lparr>username = JStr ''YOUR_SLEEPER_USERNAME'', season = Fin 2025, leagueId = JUndefined,
      rosterEvery = Fin 10, playersPrefix = JStr ''sleeper/players'',
      rosterPrefix = JStr ''sleeper_sync''\<rparr>"
    "config_readme 2025 Map.empty =
     \<lparr>username = JUndefined, season = Fin 2025, leagueId = JUndefined,
      rosterEvery = Fin 10, playersPrefix = JStr ''sleeper/players'',
      rosterPrefix = JStr ''sleeper/rosters''\<rparr>"
    "AiGmSleeperStack_lib Map.empty = AiGmSleeperStack_lib (Map.empty(''stage'' \<mapsto> JStr ''prod''))"
    "AiGmSleeperStack_readme 2025 Map.empty =
       AiGmSleeperStack_readme 2025 (Map.empty(''stage'' \<mapsto> JStr ''prod''))"
    using absent by (simp_all add: context_keys_def config.equality)
  have supplied_values:
    "config_lib ?full =
     \<lparr>username = JStr ''alice'', season = Fin 2024, leagueId = JStr ''L1'',
      rosterEvery = Fin 5, playersPrefix = JStr ''p/x'', rosterPrefix = JStr ''r/x''\<rparr>"
    "config_readme 2025 ?full =
     \<lparr>username = JStr ''alice'', season = Fin 2024, leagueId = JStr ''L1'',
      rosterEvery = Fin 5, playersPrefix = JStr ''p/x'', rosterPrefix = JStr ''r/x''\<rparr>"
    using supplied by (simp_all add: numbers config.equality del: Number.simps)
  have five: "Number_toString (Fin 5) = ''5''"
    by code_simp
  have payload: \<open>JSON_stringify [(''username'', JStr ''alice''), (''season'', JNum (Fin 2024)),
       (''league_id'', JStr ''L1'')] = ''{"username":"alice","season":2024,"league_id":"L1"}''\<close>
    by code_simp
  from supplied have declared:
    \<open>map_sum id (\<lambda>st. map (\<lambda>ip. (scheduleExpression (snd ip), input (target (snd ip))))
                     (schedules_targeting ''RosterSyncFn'' st))
       (AiGmSleeperStack_readme 2025 ?full) =
     Inr [(''rate(5 minutes)'', ''{"username":"alice","season":2024,"league_id":"L1"}'')]\<close>
    by (auto simp: supplied_values five payload simp del: Number_toString.simps)
  from defaults supplied_values declared show ?thesis
    by (simp add: context_keys_def)
qed

text \<open>What the payload of the roster schedule is made of.\<close>

lemma truthy_has_text: "truthy v \<Longrightarrow> \<exists>t. SerializeJSONProperty v = Some t"
  by (cases v rule: SerializeJSONProperty.cases) simp_all

lemma number_has_text: "\<exists>t. SerializeJSONProperty (JNum n) = Some t"
  by (cases n) simp_all

lemma or_else_truthy: "truthy d \<Longrightarrow> truthy (or_else v d)"
  by (simp add: or_else_def)

lemma quoted_keys:
  \<open>QuoteJSONString ''username'' = ''"username"''\<close>
  \<open>QuoteJSONString ''season'' = ''"season"''\<close>
  \<open>QuoteJSONString ''league_id'' = ''"league_id"''\<close>
  by code_simp+

lemma payload_text:
  assumes "SerializeJSONProperty u = Some U" and "SerializeJSONProperty (JNum s) = Some S"
  shows \<open>JSON_stringify [(''username'', u), (''season'', JNum s), (''league_id'', JUndefined)] =
         ''{"username":'' @ U @ '',"season":'' @ S @ ''}''\<close>
  using assms by (simp add: JSON_stringify_def quoted_keys)


text \<open>
  Claim C8. When no \<^verbatim>\<open>leagueId\<close> context value is supplied at deploy time, the roster
  schedule's target input is the JSON serialization of an object whose \<^verbatim>\<open>league_id\<close>
  field is undefined, so the scheduled roster event payload contains \<^verbatim>\<open>username\<close> and
  \<^verbatim>\<open>season\<close> but no \<^verbatim>\<open>league_id\<close> key at all. In both snapshots: with \<^verbatim>\<open>leagueId\<close>
  absent, the input of the roster schedule (declared always in the one snapshot, under a
  truthy username in the other) is the text of an object of exactly the two properties
  \<^verbatim>\<open>username\<close> and \<^verbatim>\<open>season\<close>, each followed by the JSON text of its value.
\<close>

theorem C8_payload_without_league_id:
  assumes "ctx ''leagueId'' = None"
  shows \<open>(\<exists>st U S. AiGmSleeperStack_lib ctx = Inr st \<and>
            SerializeJSONProperty (username (config_lib ctx)) = Some U \<and>
            SerializeJSONProperty (JNum (season (config_lib ctx))) = Some S \<and>
            map (\<lambda>ip. input (target (snd ip))) (schedules_targeting ''RosterSyncFn'' st) =
              [''{"username":'' @ U @ '',"season":'' @ S @ ''}'']) \<and>
         (\<exists>st. AiGmSleeperStack_readme year ctx = Inr st \<and>
            (if truthy (tryGetContext ctx ''username'')
             then \<exists>U S. SerializeJSONProperty (tryGetContext ctx ''username'') = Some U \<and>
                    SerializeJSONProperty (JNum (season (config_readme year ctx))) = Some S \<and>
                    map (\<lambda>ip. input (target (snd ip))) (schedules_targeting ''RosterSyncFn'' st) =
                      [''{"username":'' @ U @ '',"season":'' @ S @ ''}'']
             else schedules_targeting ''RosterSyncFn'' st = []))\<close>
proof (rule conjI)
  from assms have absent: "tryGetContext ctx ''leagueId'' = JUndefined"
    by (simp add: tryGetContext_def)
  have lib_league: "leagueId (config_lib ctx) = JUndefined"
    by (simp add: config_lib_def absent or_else_def)
  have readme_league: "leagueId (config_readme year ctx) = JUndefined"
    by (simp add: config_readme_def absent or_else_def)
  have "truthy (username (config_lib ctx))"
    by (simp add: config_lib_def or_else_truthy)
  then obtain U where U: "SerializeJSONProperty (username (config_lib ctx)) = Some U"
    using truthy_has_text by blast
  obtain S where S: "SerializeJSONProperty (JNum (season (config_lib ctx))) = Some S"
    using number_has_text by blast
  define st where "st = \<lparr>children = news (body_lib (config_lib ctx)),
                         grants = grants_of (body_lib (config_lib ctx))\<rparr>"
  have st: "AiGmSleeperStack_lib ctx = Inr st"
    by (simp only: lib_runs st_def)
  have inp: "map (\<lambda>ip. input (target (snd ip))) (schedules_targeting ''RosterSyncFn'' st) =
       [input (target (RosterEveryNMinutes (config_lib ctx)))]"
    by (simp only: st_def lib_roster_schedule list.map snd_conv)
  have \<open>input (target (RosterEveryNMinutes (config_lib ctx))) =
        ''{"username":'' @ U @ '',"season":'' @ S @ ''}''\<close>
    by (simp only: RosterEveryNMinutes_def lib_league payload_text [OF U S]
        CfnScheduleProps.simps Target.simps)
  with inp have \<open>map (\<lambda>ip. input (target (snd ip))) (schedules_targeting ''RosterSyncFn'' st) =
              [''{"username":'' @ U @ '',"season":'' @ S @ ''}'']\<close>
    by (simp only:)
  with st U S show \<open>\<exists>st U S. AiGmSleeperStack_lib ctx = Inr st \<and>
            SerializeJSONProperty (username (config_lib ctx)) = Some U \<and>
            SerializeJSONProperty (JNum (season (config_lib ctx))) = Some S \<and>
            map (\<lambda>ip. input (target (snd ip))) (schedules_targeting ''RosterSyncFn'' st) =
              [''{"username":'' @ U @ '',"season":'' @ S @ ''}'']\<close>
    by (intro exI conjI)
  define st' where "st' = \<lparr>children = news (body_readme (config_readme year ctx)),
                           grants = grants_of (body_readme (config_readme year ctx))\<rparr>"
  have st': "AiGmSleeperStack_readme year ctx = Inr st'"
    by (simp only: readme_runs st'_def)
  have name: "username (config_readme year ctx) = tryGetContext ctx ''username''"
    by (simp add: config_readme_def)
  have inp': "map (\<lambda>ip. input (target (snd ip))) (schedules_targeting ''RosterSyncFn'' st') =
       (if truthy (tryGetContext ctx ''username'')
        then [input (target (RosterEveryNMinutes (config_readme year ctx)))] else [])"
    by (simp only: st'_def readme_roster_schedule name list.map snd_conv if_distrib [of "map _"])
  have readme: \<open>if truthy (tryGetContext ctx ''username'')
             then \<exists>U S. SerializeJSONProperty (tryGetContext ctx ''username'') = Some U \<and>
                    SerializeJSONProperty (JNum (season (config_readme year ctx))) = Some S \<and>
                    map (\<lambda>ip. input (target (snd ip))) (schedules_targeting ''RosterSyncFn'' st') =
                      [''{"username":'' @ U @ '',"season":'' @ S @ ''}'']
             else schedules_targeting ''RosterSyncFn'' st' = []\<close>
  proof (cases "truthy (tryGetContext ctx ''username'')")
    case True
    then obtain U' where U': "SerializeJSONProperty (tryGetContext ctx ''username'') = Some U'"
      using truthy_has_text by blast
    obtain S' where S': "SerializeJSONProperty (JNum (season (config_readme year ctx))) = Some S'"
      using number_has_text by blast
    have \<open>input (target (RosterEveryNMinutes (config_readme year ctx))) =
        ''{"username":'' @ U' @ '',"season":'' @ S' @ ''}''\<close>
      by (simp only: RosterEveryNMinutes_def readme_league name payload_text [OF U' S']
          CfnScheduleProps.simps Target.simps)
    with inp' True have \<open>map (\<lambda>ip. input (target (snd ip))) (schedules_targeting ''RosterSyncFn'' st') =
                      [''{"username":'' @ U' @ '',"season":'' @ S' @ ''}'']\<close>
      by (simp only: if_True)
    with U' S' have \<open>\<exists>U S. SerializeJSONProperty (tryGetContext ctx ''username'') = Some U \<and>
                    SerializeJSONProperty (JNum (season (config_readme year ctx))) = Some S \<and>
                    map (\<lambda>ip. input (target (snd ip))) (schedules_targeting ''RosterSyncFn'' st') =
                      [''{"username":'' @ U @ '',"season":'' @ S @ ''}'']\<close>
      by (intro exI conjI)
    with True show ?thesis by (simp only: if_True)
  next
    case False
    with inp' have "schedules_targeting ''RosterSyncFn'' st' = []"
      by (simp only: if_False map_is_Nil_conv)
    with False show ?thesis by (simp only: if_False)
  qed
  with st' show \<open>\<exists>st. AiGmSleeperStack_readme year ctx = Inr st \<and>
            (if truthy (tryGetContext ctx ''username'')
             then \<exists>U S. SerializeJSONProperty (tryGetContext ctx ''username'') = Some U \<and>
                    SerializeJSONProperty (JNum (season (config_readme year ctx))) = Some S \<and>
                    map (\<lambda>ip. input (target (snd ip))) (schedules_targeting ''RosterSyncFn'' st) =
                      [''{"username":'' @ U @ '',"season":'' @ S @ ''}'']
             else schedules_targeting ''RosterSyncFn'' st = [])\<close>
    by (intro exI conjI)
qed


text \<open>With the username \<^verbatim>\<open>alice\<close> and nothing else supplied, deployed in 2025.\<close>

theorem C8_witness:
  \<open>(Map.empty(''username'' \<mapsto> JStr ''alice'')) ''leagueId'' = None \<and>
   map_sum id (\<lambda>st. map (\<lambda>ip. input (target (snd ip))) (schedules_targeting ''RosterSyncFn'' st))
     (AiGmSleeperStack_lib (Map.empty(''username'' \<mapsto> JStr ''alice''))) =
     Inr [''{"username":"alice","season":2025}''] \<and>
   map_sum id (\<lambda>st. map (\<lambda>ip. input (target (snd ip))) (schedules_targeting ''RosterSyncFn'' st))
     (AiGmSleeperStack_readme 2025 (Map.empty(''username'' \<mapsto> JStr ''alice''))) =
     Inr [''{"username":"alice","season":2025}'']\<close>
proof -
  let ?ctx = "Map.empty(''username'' \<mapsto> JStr ''alice'')"
  have absent: "?ctx ''leagueId'' = None"
    by simp
  have name: "tryGetContext ?ctx ''username'' = JStr ''alice''"
    by (simp add: tryGetContext_def)
  have lib_name: "username (config_lib ?ctx) = JStr ''alice''"
    by (simp add: config_lib_def name or_else_def)
  have year: "tryGetContext ?ctx ''season'' = JUndefined"
    by (simp add: tryGetContext_def)
  have lib_season: "season (config_lib ?ctx) = Fin 2025"
    by (simp add: config_lib_def year nullish_else_def)
  have readme_season: "season (config_readme 2025 ?ctx) = Fin 2025"
    by (simp add: config_readme_def year nullish_else_def)
  have U: \<open>QuoteJSONString ''alice'' = ''"alice"''\<close>
    by code_simp
  have S: "Number_toString (Fin 2025) = ''2025''"
    by code_simp
  note claim = C8_payload_without_league_id [where ctx = ?ctx and year = 2025, OF absent]
  from claim [THEN conjunct1] have
    \<open>map_sum id (\<lambda>st. map (\<lambda>ip. input (target (snd ip))) (schedules_targeting ''RosterSyncFn'' st))
       (AiGmSleeperStack_lib ?ctx) = Inr [''{"username":"alice","season":2025}'']\<close>
    by (auto simp: lib_name lib_season U S simp del: Number_toString.simps)
  moreover from claim [THEN conjunct2] have
    \<open>map_sum id (\<lambda>st. map (\<lambda>ip. input (target (snd ip))) (schedules_targeting ''RosterSyncFn'' st))
       (AiGmSleeperStack_readme 2025 ?ctx) = Inr [''{"username":"alice","season":2025}'']\<close>
    by (auto simp: name readme_season U S simp del: Number_toString.simps)
  ultimately show ?thesis
    using absent by (simp only: simp_thms)
qed


text \<open>What the expression of the roster schedule is made of.\<close>

lemma not_well_formed:
  "\<not> well_formed_rate ''rate(NaN minutes)''"
  "\<not> well_formed_rate ''rate(Infinity minutes)''"
  "\<not> well_formed_rate ''rate(-Infinity minutes)''"
  by code_simp+

lemma rosterEvery_lib:
  "rosterEvery (config_lib ctx) =
     Number (nullish_else (tryGetContext ctx ''rosterEvery'') (JNum (Fin 10)))"
  by (simp add: config_lib_def)

lemma rosterEvery_readme: "rosterEvery (config_readme year ctx) = rosterEvery (config_lib ctx)"
  by (simp add: config_lib_def config_readme_def)

text \<open>
  Claim C9. The roster schedule's expression is built by coercing the \<^verbatim>\<open>rosterEvery\<close>
  context value with \<^verbatim>\<open>Number\<close> and interpolating it into the string
  \<^verbatim>\<open>rate(<n> minutes)\<close>; stack construction never fails on a bad value, and the resulting
  expression is a well-formed rate expression only under the precondition that the
  supplied value parses as a finite number (otherwise the literal string
  \<^verbatim>\<open>rate(NaN minutes)\<close> is emitted). As amended: a value that is not finite is NaN or an
  infinity, and the expression is \<^verbatim>\<open>rate(NaN minutes)\<close> for NaN, \<^verbatim>\<open>rate(Infinity minutes)\<close>
  and \<^verbatim>\<open>rate(-Infinity minutes)\<close> for the infinities. In both snapshots the constructor
  runs to the end for every context, the expression is the interpolation of the coerced
  value (\<^verbatim>\<open>rosterEvery ?? 10\<close> under \<^verbatim>\<open>Number\<close>), and it is well-formed only when that
  value is finite.
\<close>

theorem C9_rate_expression:
  "(\<exists>st. AiGmSleeperStack_lib ctx = Inr st \<and>
      map (\<lambda>ip. scheduleExpression (snd ip)) (schedules_targeting ''RosterSyncFn'' st) =
        [''rate('' @ Number_toString (rosterEvery (config_lib ctx)) @ '' minutes)'']) \<and>
   (\<exists>st. AiGmSleeperStack_readme year ctx = Inr st \<and>
      map (\<lambda>ip. scheduleExpression (snd ip)) (schedules_targeting ''RosterSyncFn'' st) =
        (if truthy (tryGetContext ctx ''username'')
         then [''rate('' @ Number_toString (rosterEvery (config_lib ctx)) @ '' minutes)'']
         else [])) \<and>
   rosterEvery (config_lib ctx) =
     Number (nullish_else (tryGetContext ctx ''rosterEvery'') (JNum (Fin 10))) \<and>
   rosterEvery (config_readme year ctx) = rosterEvery (config_lib ctx) \<and>
   (rosterEvery (config_lib ctx) = NaN \<longrightarrow>
      ''rate('' @ Number_toString (rosterEvery (config_lib ctx)) @ '' minutes)'' =
      ''rate(NaN minutes)'') \<and>
   (rosterEvery (config_lib ctx) = PInf \<longrightarrow>
      ''rate('' @ Number_toString (rosterEvery (config_lib ctx)) @ '' minutes)'' =
      ''rate(Infinity minutes)'') \<and>
   (rosterEvery (config_lib ctx) = NInf \<longrightarrow>
      ''rate('' @ Number_toString (rosterEvery (config_lib ctx)) @ '' minutes)'' =
      ''rate(-Infinity minutes)'') \<and>
   (well_formed_rate (''rate('' @ Number_toString (rosterEvery (config_lib ctx)) @ '' minutes)'') \<longrightarrow>
      (\<exists>q. rosterEvery (config_lib ctx) = Fin q))"
proof (intro conjI)
  show "\<exists>st. AiGmSleeperStack_lib ctx = Inr st \<and>
      map (\<lambda>ip. scheduleExpression (snd ip)) (schedules_targeting ''RosterSyncFn'' st) =
        [''rate('' @ Number_toString (rosterEvery (config_lib ctx)) @ '' minutes)'']"
    by (simp add: lib_runs lib_roster_schedule RosterEveryNMinutes_def
        del: Number_toString.simps)
  show "\<exists>st. AiGmSleeperStack_readme year ctx = Inr st \<and>
      map (\<lambda>ip. scheduleExpression (snd ip)) (schedules_targeting ''RosterSyncFn'' st) =
        (if truthy (tryGetContext ctx ''username'')
         then [''rate('' @ Number_toString (rosterEvery (config_lib ctx)) @ '' minutes)'']
         else [])"
    by (simp add: readme_runs readme_roster_schedule RosterEveryNMinutes_def rosterEvery_readme
        del: Number_toString.simps) (simp add: config_readme_def)
  show "rosterEvery (config_lib ctx) =
     Number (nullish_else (tryGetContext ctx ''rosterEvery'') (JNum (Fin 10)))"
    by (rule rosterEvery_lib)
  show "rosterEvery (config_readme year ctx) = rosterEvery (config_lib ctx)"
    by (rule rosterEvery_readme)
  show "well_formed_rate (''rate('' @ Number_toString (rosterEvery (config_lib ctx)) @ '' minutes)'') \<longrightarrow>
      (\<exists>q. rosterEvery (config_lib ctx) = Fin q)"
    using not_well_formed by (cases "rosterEvery (config_lib ctx)") simp_all
qed simp_all

text \<open>
  The claim as stated fails for \<^verbatim>\<open>-c rosterEvery=Infinity\<close>: the value is not a finite
  number, and the expression is \<^verbatim>\<open>rate(Infinity minutes)\<close>, not \<^verbatim>\<open>rate(NaN minutes)\<close>.
\<close>

theorem C9_counterexample:
  "Number (JStr ''Infinity'') = PInf \<and>
   map_sum id (\<lambda>st. map (\<lambda>ip. scheduleExpression (snd ip)) (schedules_targeting ''RosterSyncFn'' st))
     (AiGmSleeperStack_lib (Map.empty(''rosterEvery'' \<mapsto> JStr ''Infinity''))) =
     Inr [''rate(Infinity minutes)'']"
proof -
  have inf: "Number (JStr ''Infinity'') = PInf"
    by code_simp
  have "rosterEvery (config_lib (Map.empty(''rosterEvery'' \<mapsto> JStr ''Infinity''))) = PInf"
    by (simp only: rosterEvery_lib) (simp add: tryGetContext_def nullish_else_def inf del: Number.simps)
  then show ?thesis
    using inf by (simp add: lib_runs lib_roster_schedule RosterEveryNMinutes_def del: Number.simps)
qed


text \<open>
  A value that is no number, the two infinities, and the well-formed expression of the
  value 5.
\<close>

theorem C9_witness:
  "map_sum id (\<lambda>st. map (\<lambda>ip. scheduleExpression (snd ip)) (schedules_targeting ''RosterSyncFn'' st))
     (AiGmSleeperStack_lib (Map.empty(''rosterEvery'' \<mapsto> JStr ''abc''))) =
     Inr [''rate(NaN minutes)''] \<and>
   map_sum id (\<lambda>st. map (\<lambda>ip. scheduleExpression (snd ip)) (schedules_targeting ''RosterSyncFn'' st))
     (AiGmSleeperStack_lib (Map.empty(''rosterEvery'' \<mapsto> JStr ''-Infinity''))) =
     Inr [''rate(-Infinity minutes)''] \<and>
   map_sum id (\<lambda>st. map (\<lambda>ip. scheduleExpression (snd ip)) (schedules_targeting ''RosterSyncFn'' st))
     (AiGmSleeperStack_lib (Map.empty(''rosterEvery'' \<mapsto> JNum PInf))) =
     Inr [''rate(Infinity minutes)''] \<and>
   map_sum id (\<lambda>st. map (\<lambda>ip. scheduleExpression (snd ip)) (schedules_targeting ''RosterSyncFn'' st))
     (AiGmSleeperStack_lib (Map.empty(''rosterEvery'' \<mapsto> JStr ''5''))) =
     Inr [''rate(5 minutes)''] \<and>
   well_formed_rate ''rate(5 minutes)'' \<and>
   rosterEvery (config_lib (Map.empty(''rosterEvery'' \<mapsto> JStr ''5''))) = Fin 5"
proof -
  let ?a = "Map.empty(''rosterEvery'' \<mapsto> JStr ''abc'')"
  let ?b = "Map.empty(''rosterEvery'' \<mapsto> JStr ''-Infinity'')"
  let ?c = "Map.empty(''rosterEvery'' \<mapsto> JStr ''5'')"
  have numbers: "Number (JStr ''abc'') = NaN" "Number (JStr ''-Infinity'') = NInf"
    "Number (JStr ''5'') = Fin 5"
    by code_simp+
  have five: "Number_toString (Fin 5) = ''5''"
    by code_simp
  have wf: "well_formed_rate ''rate(5 minutes)''"
    by code_simp
  have a: "rosterEvery (config_lib ?a) = NaN"
    by (simp only: rosterEvery_lib) (simp add: tryGetContext_def nullish_else_def numbers del: Number.simps)
  have b: "rosterEvery (config_lib ?b) = NInf"
    by (simp only: rosterEvery_lib) (simp add: tryGetContext_def nullish_else_def numbers del: Number.simps)
  have c: "rosterEvery (config_lib ?c) = Fin 5"
    by (simp only: rosterEvery_lib) (simp add: tryGetContext_def nullish_else_def numbers del: Number.simps)
  from C9_rate_expression [of ?a 2025] a have A:
    "map_sum id (\<lambda>st. map (\<lambda>ip. scheduleExpression (snd ip)) (schedules_targeting ''RosterSyncFn'' st))
       (AiGmSleeperStack_lib ?a) = Inr [''rate(NaN minutes)'']"
    by auto
  from C9_rate_expression [of ?b 2025] b have B:
    "map_sum id (\<lambda>st. map (\<lambda>ip. scheduleExpression (snd ip)) (schedules_targeting ''RosterSyncFn'' st))
       (AiGmSleeperStack_lib ?b) = Inr [''rate(-Infinity minutes)'']"
    by auto
  have d: "rosterEvery (config_lib (Map.empty(''rosterEvery'' \<mapsto> JNum PInf))) = PInf"
    by (simp only: rosterEvery_lib) (simp add: tryGetContext_def nullish_else_def)
  from C9_rate_expression [of "Map.empty(''rosterEvery'' \<mapsto> JNum PInf)" 2025] d have D:
    "map_sum id (\<lambda>st. map (\<lambda>ip. scheduleExpression (snd ip)) (schedules_targeting ''RosterSyncFn'' st))
       (AiGmSleeperStack_lib (Map.empty(''rosterEvery'' \<mapsto> JNum PInf))) =
       Inr [''rate(Infinity minutes)'']"
    by auto
  from C9_rate_expression [of ?c 2025] c five have C:
    "map_sum id (\<lambda>st. map (\<lambda>ip. scheduleExpression (snd ip)) (schedules_targeting ''RosterSyncFn'' st))
       (AiGmSleeperStack_lib ?c) = Inr [''rate(5 minutes)'']"
    by (auto simp del: Number_toString.simps)
  from A B C D wf c show ?thesis
    by (simp only: simp_thms)
qed


section \<open>The older snapshot\<close>

text \<open>
  What \<^verbatim>\<open>src/infra/lib/ai-gm-stack.ts\<close> declares where it differs from the snapshot in
  \<^verbatim>\<open>src/infra/README.md\<close>: two functions and no orchestrator, and two schedules, the
  roster schedule among them whatever the context.
\<close>

lemma lib_two_functions:
  "\<exists>st. AiGmSleeperStack_lib ctx = Inr st \<and>
     map (\<lambda>ip. (fst ip, handler (snd ip))) (pythonFunctions st) =
       [(''PlayersSyncFn'', ''players_lambda_handler''),
        (''RosterSyncFn'', ''roster_lambda_handler'')]"
  by (simp add: lib_runs news_body_lib pythonFunctions_def PlayersSyncFn_def RosterSyncFn_def)

lemma lib_roster_schedule_always:
  "\<exists>st. AiGmSleeperStack_lib ctx = Inr st \<and>
     map fst (schedules st) = [''PlayersDailySchedule'', ''RosterEveryNMinutes''] \<and>
     map fst (schedules_targeting ''RosterSyncFn'' st) = [''RosterEveryNMinutes'']"
  by (simp add: lib_runs lib_roster_schedule) (simp add: news_body_lib schedules_def)

text \<open>
  With no context at all, the older snapshot schedules a roster sync for the placeholder
  username.
\<close>

lemma lib_placeholder_payload:
  \<open>map_sum id (\<lambda>st. map (\<lambda>ip. input (target (snd ip))) (schedules_targeting ''RosterSyncFn'' st))
     (AiGmSleeperStack_lib Map.empty) =
   Inr [''{"username":"YOUR_SLEEPER_USERNAME","season":2025}'']\<close>
proof -
  have cfg: "config_lib Map.empty =
     \<lparr>username = JStr ''YOUR_SLEEPER_USERNAME'', season = Fin 2025, leagueId = JUndefined,
      rosterEvery = Fin 10, playersPrefix = JStr ''sleeper/players'',
      rosterPrefix = JStr ''sleeper_sync''\<rparr>"
    by (simp add: config_lib_def tryGetContext_def or_else_def nullish_else_def)
  have payload: \<open>JSON_stringify [(''username'', JStr ''YOUR_SLEEPER_USERNAME''),
       (''season'', JNum (Fin 2025)), (''league_id'', JUndefined)] =
     ''{"username":"YOUR_SLEEPER_USERNAME","season":2025}''\<close>
    by code_simp
  show ?thesis
    by (simp add: lib_runs lib_roster_schedule cfg RosterEveryNMinutes_def payload
        del: Number_toString.simps)
qed

end
